theory Spec2Isabelle
  imports Complex_Main "HOL-Library.AList"
begin

section \<open>Python values used by the name resolver\<close>

text \<open>
  The notebook cell "Useful Functions" of \<^verbatim>\<open>PS1_DR2_TAP.ipynb\<close> defines
  \<^verbatim>\<open>mastQuery\<close> and \<^verbatim>\<open>resolve\<close>. Both work on Python \<^verbatim>\<open>str\<close>
  values and on the values produced by \<^verbatim>\<open>json.loads\<close>.

  A Python \<^verbatim>\<open>str\<close> is a sequence of Unicode code points, so it is a list of
  naturals here; \<open>py_str\<close> reads an ASCII literal of the source.
\<close>

text \<open>
  The code points written as numbers below: 9 tab, 10 line feed, 12 form feed, 13 carriage
  return, 8 backspace, 32 space, 34 \<^verbatim>\<open>"\<close>, 37 \<^verbatim>\<open>%\<close>, 39 \<^verbatim>\<open>'\<close>, 43 \<^verbatim>\<open>+\<close>,
  44 \<^verbatim>\<open>,\<close>, 45 \<^verbatim>\<open>-\<close>, 46 \<^verbatim>\<open>.\<close>, 47 \<^verbatim>\<open>/\<close>, 48 to 57 the digits,
  58 \<^verbatim>\<open>:\<close>, 65 to 90 \<^verbatim>\<open>A\<close> to \<^verbatim>\<open>Z\<close>, 69 \<^verbatim>\<open>E\<close>, 91 \<^verbatim>\<open>[\<close>, 92 the
  backslash, 93 \<^verbatim>\<open>]\<close>, 95 \<^verbatim>\<open>_\<close>, 97 to 122 \<^verbatim>\<open>a\<close> to \<^verbatim>\<open>z\<close> (98 \<^verbatim>\<open>b\<close>,
  101 \<^verbatim>\<open>e\<close>, 102 \<^verbatim>\<open>f\<close>, 110 \<^verbatim>\<open>n\<close>, 114 \<^verbatim>\<open>r\<close>, 116 \<^verbatim>\<open>t\<close>, 117 \<^verbatim>\<open>u\<close>),
  123 \<^verbatim>\<open>{\<close>, 125 \<^verbatim>\<open>}\<close>, 126 \<^verbatim>\<open>~\<close>; 55296 to 56319 the high surrogates, 56320
  to 57343 the low surrogates, 65279 the byte order mark.
\<close>

type_synonym str = "nat list"

definition py_str :: "string \<Rightarrow> str" where
  "py_str cs = map of_char cs"

text \<open>
  The values \<^verbatim>\<open>json.loads\<close> can return: \<^verbatim>\<open>None\<close>, \<^verbatim>\<open>bool\<close>,
  \<^verbatim>\<open>int\<close>, \<^verbatim>\<open>float\<close>, \<^verbatim>\<open>str\<close>, \<^verbatim>\<open>list\<close> and \<^verbatim>\<open>dict\<close> with
  \<^verbatim>\<open>str\<close> keys. The float type is the parameter \<open>'f\<close>: the code only passes
  floats along. A \<^verbatim>\<open>dict\<close> is an association list in insertion order, with
  distinct keys when built by \<open>dict_of_pairs\<close>; lookups read it with \<open>map_of\<close>.
\<close>

datatype 'f json =
    JNull
  | JBool bool
  | JInt int
  | JFloat 'f
  | JStr str
  | JArr "'f json list"
  | JObj "(str \<times> 'f json) list"

text \<open>A subscript \<^verbatim>\<open>obj[k]\<close> of the source is either a \<^verbatim>\<open>str\<close> or an \<^verbatim>\<open>int\<close>.\<close>

datatype subscript = Key str | Index int

text \<open>
  The exceptions that can leave the two functions. \<^verbatim>\<open>ValueError\<close> carries its
  message. \<^verbatim>\<open>JSONDecodeError\<close>, \<^verbatim>\<open>UnicodeDecodeError\<close> and
  \<^verbatim>\<open>UnicodeEncodeError\<close> are subclasses of \<^verbatim>\<open>ValueError\<close> in Python, but
  none of them is an \<^verbatim>\<open>IndexError\<close>, which is all the handler of
  \<^verbatim>\<open>resolve\<close> looks at. \<^verbatim>\<open>RecursionError\<close> is what \<^verbatim>\<open>json.dumps\<close> raises on a
  value nested too deep. \<^verbatim>\<open>OSError\<close> and \<^verbatim>\<open>HTTPException\<close> stand for what
  \<^verbatim>\<open>http.client\<close> raises.
\<close>

datatype py_error =
    IndexError
  | KeyError subscript
  | TypeError
  | ValueError str
  | JSONDecodeError
  | UnicodeDecodeError
  | UnicodeEncodeError
  | RecursionError
  | OSError
  | HTTPException

subsection \<open>Subscription\<close>

text \<open>
  \<^verbatim>\<open>seq[i]\<close> on a list or a string: a negative index counts from the end, and an
  index outside the sequence raises \<^verbatim>\<open>IndexError\<close>.
\<close>

definition seq_item :: "'a list \<Rightarrow> int \<Rightarrow> py_error + 'a" where
  "seq_item xs i =
     (if 0 \<le> i \<and> i < int (length xs) then Inr (xs ! nat i)
      else if i < 0 \<and> - int (length xs) \<le> i then Inr (xs ! nat (i + int (length xs)))
      else Inl IndexError)"

text \<open>
  \<^verbatim>\<open>obj[k]\<close> on a decoded JSON value. A \<^verbatim>\<open>dict\<close> raises \<^verbatim>\<open>KeyError\<close> for a
  missing key (an \<^verbatim>\<open>int\<close> is never a key of a decoded object); a \<^verbatim>\<open>list\<close> or
  \<^verbatim>\<open>str\<close> subscripted by a \<^verbatim>\<open>str\<close> raises \<^verbatim>\<open>TypeError\<close>; indexing a
  \<^verbatim>\<open>str\<close> gives the one-character string; \<^verbatim>\<open>None\<close>, \<^verbatim>\<open>bool\<close>, \<^verbatim>\<open>int\<close>
  and \<^verbatim>\<open>float\<close> are not subscriptable (\<^verbatim>\<open>TypeError\<close>).
\<close>

fun getitem :: "'f json \<Rightarrow> subscript \<Rightarrow> py_error + 'f json" where
  "getitem (JObj d) (Key k) =
     (case map_of d k of None \<Rightarrow> Inl (KeyError (Key k)) | Some v \<Rightarrow> Inr v)"
| "getitem (JObj d) (Index i) = Inl (KeyError (Index i))"
| "getitem (JArr xs) (Index i) = seq_item xs i"
| "getitem (JArr xs) (Key k) = Inl TypeError"
| "getitem (JStr s) (Index i) =
     (case seq_item s i of Inl e \<Rightarrow> Inl e | Inr c \<Rightarrow> Inr (JStr [c]))"
| "getitem (JStr s) (Key k) = Inl TypeError"
| "getitem JNull k = Inl TypeError"
| "getitem (JBool b) k = Inl TypeError"
| "getitem (JInt n) k = Inl TypeError"
| "getitem (JFloat x) k = Inl TypeError"

text \<open>\<^verbatim>\<open>obj[k1][k2][k3]\<close>, evaluated left to right; the first exception ends it.\<close>

definition getitem3 :: "'f json \<Rightarrow> subscript \<Rightarrow> subscript \<Rightarrow> subscript \<Rightarrow> py_error + 'f json" where
  "getitem3 obj k1 k2 k3 =
     (case getitem obj k1 of
        Inl e \<Rightarrow> Inl e
      | Inr a \<Rightarrow>
          (case getitem a k2 of
             Inl e \<Rightarrow> Inl e
           | Inr b \<Rightarrow> getitem b k3))"

section \<open>The library functions the cell calls\<close>

text \<open>
  \<^verbatim>\<open>json.dumps\<close>, \<^verbatim>\<open>urllib.parse.quote\<close> (imported as \<^verbatim>\<open>urlencode\<close>) and
  \<^verbatim>\<open>json.loads\<close> belong to the Python standard library. They are written out
  here as CPython 3.7 and later define them for the default arguments the cell uses, so
  that the request and the response can be computed on concrete text. \<^verbatim>\<open>json.dumps\<close>
  has its two ways to raise on a value of these types: nesting that is too deep and an
  integer with too many digits. For \<^verbatim>\<open>json.loads\<close> the same two limits of CPython are
  left out: every property below that reads a response takes the decoded value as given
  or decodes a short text.
\<close>

subsection \<open>\<^verbatim>\<open>str(int)\<close> and \<^verbatim>\<open>str.join\<close>\<close>

fun str_of_nat :: "nat \<Rightarrow> str" where
  "str_of_nat n = (if n < 10 then [48 + n] else str_of_nat (n div 10) @ [48 + n mod 10])"

declare str_of_nat.simps [simp del]

definition repr_int :: "int \<Rightarrow> str" where
  "repr_int i = (if i < 0 then 45 # str_of_nat (nat (- i)) else str_of_nat (nat i))"

fun join :: "str \<Rightarrow> str list \<Rightarrow> str" where
  "join sep [] = []"
| "join sep [x] = x"
| "join sep (x # y # ys) = x @ sep @ join sep (y # ys)"

subsection \<open>\<^verbatim>\<open>json.dumps\<close>: the text\<close>

text \<open>
  The defaults: \<^verbatim>\<open>ensure_ascii=True\<close>, separators \<^verbatim>\<open>', '\<close> and \<^verbatim>\<open>': '\<close>, keys
  in insertion order. A character outside \<^verbatim>\<open>' '..'~'\<close>, a quote or a backslash is
  escaped; a code point above \<^verbatim>\<open>0xFFFF\<close> becomes a surrogate pair. A float is
  printed by the encoder's \<^verbatim>\<open>floatstr\<close> (\<^verbatim>\<open>float.__repr__\<close>, and \<^verbatim>\<open>NaN\<close>,
  \<^verbatim>\<open>Infinity\<close>, \<^verbatim>\<open>-Infinity\<close>), the parameter \<open>fr\<close>.
\<close>

definition hex_lower :: "nat \<Rightarrow> nat" where
  "hex_lower d = (if d < 10 then 48 + d else 87 + d)"

definition u_escape :: "nat \<Rightarrow> str" where
  "u_escape n = [92, 117, hex_lower (n div 4096 mod 16), hex_lower (n div 256 mod 16),
                 hex_lower (n div 16 mod 16), hex_lower (n mod 16)]"

definition escape_ascii :: "nat \<Rightarrow> str" where
  "escape_ascii c =
     (if c = 92 then [92, 92]
      else if c = 34 then [92, 34]
      else if c = 8 then [92, 98]
      else if c = 12 then [92, 102]
      else if c = 10 then [92, 110]
      else if c = 13 then [92, 114]
      else if c = 9 then [92, 116]
      else if 32 \<le> c \<and> c \<le> 126 then [c]
      else if c < 65536 then u_escape c
      else u_escape (55296 + (c - 65536) div 1024 mod 1024) @ u_escape (56320 + (c - 65536) mod 1024))"

definition encode_basestring_ascii :: "str \<Rightarrow> str" where
  "encode_basestring_ascii s = 34 # concat (map escape_ascii s) @ [34]"

fun json_text :: "('f \<Rightarrow> str) \<Rightarrow> 'f json \<Rightarrow> str" where
  "json_text fr JNull = py_str ''null''"
| "json_text fr (JBool b) = (if b then py_str ''true'' else py_str ''false'')"
| "json_text fr (JInt i) = repr_int i"
| "json_text fr (JFloat x) = fr x"
| "json_text fr (JStr s) = encode_basestring_ascii s"
| "json_text fr (JArr xs) = 91 # join (py_str '', '') (map (json_text fr) xs) @ [93]"
| "json_text fr (JObj d) =
     123 # join (py_str '', '')
             (map (\<lambda>kv. encode_basestring_ascii (fst kv) @ py_str '': '' @ json_text fr (snd kv)) d) @ [125]"

text \<open>
  \<open>json_text\<close> is the text that \<^verbatim>\<open>json.dumps\<close> returns when it returns.
  \<^verbatim>\<open>json.dumps\<close> raises in two cases, found by \<open>dumps_raises\<close>; the first one met in
  the order of the text wins:
  \<^item> \<^verbatim>\<open>RecursionError\<close>: the encoder enters one level of recursion for every
    \<^verbatim>\<open>list\<close> and \<^verbatim>\<open>dict\<close>, the empty ones too; \<open>d\<close> is the number of levels the
    stack still allows.
  \<^item> \<^verbatim>\<open>ValueError\<close>: \<^verbatim>\<open>int.__repr__\<close> refuses an integer with more decimal digits
    than \<^verbatim>\<open>sys.get_int_max_str_digits()\<close> (4300 by default since CPython 3.11; 0 for
    no limit, as in the versions before the limit was introduced).
\<close>

definition int_too_long :: "nat \<Rightarrow> int \<Rightarrow> bool" where
  "int_too_long max_digits i \<longleftrightarrow> 0 < max_digits \<and> max_digits < length (str_of_nat (nat \<bar>i\<bar>))"

definition digits_error :: "nat \<Rightarrow> py_error" where
  "digits_error max_digits =
     ValueError (py_str ''Exceeds the limit ('' @ str_of_nat max_digits @
       py_str '' digits) for integer string conversion; use sys.set_int_max_str_digits() to increase the limit'')"

fun first_raised :: "'e option list \<Rightarrow> 'e option" where
  "first_raised [] = None"
| "first_raised (None # es) = first_raised es"
| "first_raised (Some e # es) = Some e"

fun dumps_raises :: "nat \<Rightarrow> nat \<Rightarrow> 'f json \<Rightarrow> py_error option" where
  "dumps_raises m d JNull = None"
| "dumps_raises m d (JBool b) = None"
| "dumps_raises m d (JInt i) = (if int_too_long m i then Some (digits_error m) else None)"
| "dumps_raises m d (JFloat x) = None"
| "dumps_raises m d (JStr s) = None"
| "dumps_raises m 0 (JArr xs) = Some RecursionError"
| "dumps_raises m (Suc d) (JArr xs) = first_raised (map (dumps_raises m d) xs)"
| "dumps_raises m 0 (JObj kvs) = Some RecursionError"
| "dumps_raises m (Suc d) (JObj kvs) = first_raised (map (\<lambda>kv. dumps_raises m d (snd kv)) kvs)"

subsection \<open>\<^verbatim>\<open>urllib.parse.quote\<close>\<close>

text \<open>
  \<^verbatim>\<open>quote(string)\<close> encodes the string as UTF-8 (strict: a lone surrogate raises
  \<^verbatim>\<open>UnicodeEncodeError\<close>) and writes every byte that is not a letter, a digit or
  one of \<^verbatim>\<open>_.-~/\<close> as \<^verbatim>\<open>%XX\<close> with upper-case digits.
\<close>

definition utf8_encode_char :: "nat \<Rightarrow> py_error + nat list" where
  "utf8_encode_char c =
     (if c < 128 then Inr [c]
      else if c < 2048 then Inr [192 + c div 64, 128 + c mod 64]
      else if 55296 \<le> c \<and> c \<le> 57343 then Inl UnicodeEncodeError
      else if c < 65536 then Inr [224 + c div 4096, 128 + c div 64 mod 64, 128 + c mod 64]
      else Inr [240 + c div 262144, 128 + c div 4096 mod 64, 128 + c div 64 mod 64, 128 + c mod 64])"

fun utf8_encode :: "str \<Rightarrow> py_error + nat list" where
  "utf8_encode [] = Inr []"
| "utf8_encode (c # cs) =
     (case utf8_encode_char c of
        Inl e \<Rightarrow> Inl e
      | Inr bs \<Rightarrow> (case utf8_encode cs of Inl e \<Rightarrow> Inl e | Inr rest \<Rightarrow> Inr (bs @ rest)))"

definition always_safe :: "nat \<Rightarrow> bool" where
  "always_safe b \<longleftrightarrow>
     (65 \<le> b \<and> b \<le> 90) \<or> (97 \<le> b \<and> b \<le> 122) \<or> (48 \<le> b \<and> b \<le> 57) \<or>
     b = 95 \<or> b = 46 \<or> b = 45 \<or> b = 126"

definition hex_upper :: "nat \<Rightarrow> nat" where
  "hex_upper d = (if d < 10 then 48 + d else 55 + d)"

definition quote_byte :: "nat \<Rightarrow> str" where
  "quote_byte b = (if always_safe b \<or> b = 47 then [b] else [37, hex_upper (b div 16), hex_upper (b mod 16)])"

definition quote :: "str \<Rightarrow> py_error + str" where
  "quote string =
     (case utf8_encode string of
        Inl e \<Rightarrow> Inl e
      | Inr bs \<Rightarrow> Inr (concat (map quote_byte bs)))"

text \<open>
  The way back, used to read a request body again: \<^verbatim>\<open>unquote_to_bytes\<close> replaces
  each \<^verbatim>\<open>%XX\<close> by its byte, and \<^verbatim>\<open>bytes.decode('ascii')\<close> accepts bytes
  below 128 only.
\<close>

definition hex_value :: "nat \<Rightarrow> nat option" where
  "hex_value c =
     (if 48 \<le> c \<and> c \<le> 57 then Some (c - 48)
      else if 97 \<le> c \<and> c \<le> 102 then Some (c - 87)
      else if 65 \<le> c \<and> c \<le> 70 then Some (c - 55)
      else None)"

fun unquote_to_bytes :: "nat list \<Rightarrow> nat list" where
  "unquote_to_bytes (p # a # b # rest) =
     (case (if p = 37 then hex_value a else None, hex_value b) of
        (Some h, Some l) \<Rightarrow> (16 * h + l) # unquote_to_bytes rest
      | _ \<Rightarrow> p # unquote_to_bytes (a # b # rest))"
| "unquote_to_bytes bs = bs"

definition decode_ascii :: "nat list \<Rightarrow> py_error + str" where
  "decode_ascii bs = (if list_all (\<lambda>b. b < 128) bs then Inr bs else Inl UnicodeDecodeError)"

subsection \<open>\<^verbatim>\<open>json.loads\<close>\<close>

text \<open>
  The decoder works on the remaining input. \<open>None\<close> stands for
  \<^verbatim>\<open>JSONDecodeError\<close>. Strings are scanned in strict mode (no control characters),
  \<^verbatim>\<open>\uXXXX\<close> escapes take four hexadecimal digits and a high surrogate followed by
  an escaped low surrogate is joined. Numbers follow
  \<^verbatim>\<open>-?(0|[1-9][0-9]*)(\.[0-9]+)?([eE][-+]?[0-9]+)?\<close>: with a fraction or an exponent
  the text goes to \<^verbatim>\<open>parse_float\<close> (Python's \<^verbatim>\<open>float\<close>, a parameter), otherwise to
  \<^verbatim>\<open>int\<close>. \<^verbatim>\<open>NaN\<close>, \<^verbatim>\<open>Infinity\<close> and \<^verbatim>\<open>-Infinity\<close> are accepted.
\<close>

definition is_ws :: "nat \<Rightarrow> bool" where
  "is_ws c \<longleftrightarrow> c = 32 \<or> c = 9 \<or> c = 10 \<or> c = 13"

definition skip_ws :: "str \<Rightarrow> str" where
  "skip_ws s = dropWhile is_ws s"

definition is_digit :: "nat \<Rightarrow> bool" where
  "is_digit c \<longleftrightarrow> 48 \<le> c \<and> c \<le> 57"

definition hex4_value :: "nat \<Rightarrow> nat \<Rightarrow> nat \<Rightarrow> nat \<Rightarrow> nat option" where
  "hex4_value a b c d =
     (case (hex_value a, hex_value b, hex_value c, hex_value d) of
        (Some x, Some y, Some z, Some w) \<Rightarrow> Some (4096 * x + 256 * y + 16 * z + w)
      | _ \<Rightarrow> None)"

definition simple_escape :: "nat \<Rightarrow> nat option" where
  "simple_escape e =
     (if e = 34 \<or> e = 92 \<or> e = 47 then Some e
      else if e = 98 then Some 8
      else if e = 102 then Some 12
      else if e = 110 then Some 10
      else if e = 114 then Some 13
      else if e = 116 then Some 9
      else None)"

definition with_char :: "nat \<Rightarrow> (str \<times> str) option \<Rightarrow> (str \<times> str) option" where
  "with_char c res = (case res of None \<Rightarrow> None | Some (x, r) \<Rightarrow> Some (c # x, r))"

definition unescape :: "str \<Rightarrow> (nat \<times> str) option" where
  "unescape s =
     (case s of
        [] \<Rightarrow> None
      | e # r \<Rightarrow>
          if e = 117 then
            (case r of
               x1 # x2 # x3 # x4 # r1 \<Rightarrow>
                 (case hex4_value x1 x2 x3 x4 of
                    None \<Rightarrow> None
                  | Some hi \<Rightarrow>
                      if 55296 \<le> hi \<and> hi \<le> 56319 then
                        (case r1 of
                           b # u # y1 # y2 # y3 # y4 # r2 \<Rightarrow>
                             if b = 92 \<and> u = 117 then
                               (case hex4_value y1 y2 y3 y4 of
                                  None \<Rightarrow> None
                                | Some lo \<Rightarrow>
                                    if 56320 \<le> lo \<and> lo \<le> 57343
                                    then Some (65536 + (hi - 55296) * 1024 + (lo - 56320), r2)
                                    else Some (hi, r1))
                             else Some (hi, r1)
                         | _ \<Rightarrow> Some (hi, r1))
                      else Some (hi, r1))
             | _ \<Rightarrow> None)
          else
            (case simple_escape e of
               None \<Rightarrow> None
             | Some ch \<Rightarrow> Some (ch, r)))"

lemma unescape_shorter: "unescape s = Some (ch, r) \<Longrightarrow> length r < length s"
  by (auto simp: unescape_def split: list.splits option.splits if_splits)

function scanstring :: "str \<Rightarrow> (str \<times> str) option" where
  "scanstring [] = None"
| "scanstring (c # cs) =
     (if c = 34 then Some ([], cs)
      else if c = 92 then
        (case unescape cs of
           None \<Rightarrow> None
         | Some (ch, r) \<Rightarrow> with_char ch (scanstring r))
      else if c < 32 then None
      else with_char c (scanstring cs))"
  by pat_completeness auto
termination
proof (relation "measure length", goal_cases)
  case (2 c cs x2 x y)
  then show ?case using unescape_shorter [of cs x y] by simp
qed simp_all

lemma scanstring_shorter: "scanstring s = Some (x, r) \<Longrightarrow> length r < length s"
proof (induction s arbitrary: x r rule: scanstring.induct)
  case 1
  then show ?case by simp
next
  case (2 c cs)
  then show ?case
    by (fastforce simp: with_char_def split: if_splits option.splits prod.splits dest: unescape_shorter)
qed

lemma length_skip_ws: "length (skip_ws s) \<le> length s"
  by (simp add: skip_ws_def length_dropWhile_le)

definition strip_prefix :: "str \<Rightarrow> str \<Rightarrow> str option" where
  "strip_prefix p s = (if take (length p) s = p then Some (drop (length p) s) else None)"

definition match_int :: "str \<Rightarrow> (str \<times> str) option" where
  "match_int s =
     (case s of
        [] \<Rightarrow> None
      | c # r \<Rightarrow>
          if c = 48 then Some ([c], r)
          else if 49 \<le> c \<and> c \<le> 57 then Some (c # takeWhile is_digit r, dropWhile is_digit r)
          else None)"

definition match_frac :: "str \<Rightarrow> str \<times> str" where
  "match_frac s =
     (case s of
        p # d # r \<Rightarrow>
          if p = 46 \<and> is_digit d then (p # d # takeWhile is_digit r, dropWhile is_digit r)
          else ([], s)
      | _ \<Rightarrow> ([], s))"

definition match_sign :: "str \<Rightarrow> str \<times> str" where
  "match_sign s = (case s of [] \<Rightarrow> ([], s) | c # r \<Rightarrow> if c = 45 \<or> c = 43 then ([c], r) else ([], s))"

definition match_exp :: "str \<Rightarrow> str \<times> str" where
  "match_exp s =
     (case s of
        [] \<Rightarrow> ([], s)
      | e # r \<Rightarrow>
          if e = 101 \<or> e = 69 then
            (case match_sign r of
               (sg, r1) \<Rightarrow>
                 if takeWhile is_digit r1 = [] then ([], s)
                 else (e # sg @ takeWhile is_digit r1, dropWhile is_digit r1))
          else ([], s))"

definition int_of_str :: "str \<Rightarrow> int" where
  "int_of_str ds =
     (case ds of
        [] \<Rightarrow> 0
      | c # r \<Rightarrow>
          if c = 45 then - int (foldl (\<lambda>n d. 10 * n + (d - 48)) 0 r)
          else int (foldl (\<lambda>n d. 10 * n + (d - 48)) 0 ds))"

definition match_number :: "(str \<Rightarrow> 'f) \<Rightarrow> str \<Rightarrow> ('f json \<times> str) option" where
  "match_number parse_float s =
     (case (case s of [] \<Rightarrow> ([], s) | c # r \<Rightarrow> if c = 45 then ([c], r) else ([], s)) of
        (neg, s1) \<Rightarrow>
          (case match_int s1 of
             None \<Rightarrow> None
           | Some (integer, s2) \<Rightarrow>
               (case match_frac s2 of
                  (fpart, s3) \<Rightarrow>
                    (case match_exp s3 of
                       (expo, s4) \<Rightarrow>
                         if fpart \<noteq> [] \<or> expo \<noteq> []
                         then Some (JFloat (parse_float (neg @ integer @ fpart @ expo)), s4)
                         else Some (JInt (int_of_str (neg @ integer)), s4)))))"

lemma match_int_shorter: "match_int s = Some (ds, r) \<Longrightarrow> length r < length s"
  by (auto simp: match_int_def less_Suc_eq_le length_dropWhile_le split: list.splits if_splits)

lemma match_frac_le: "match_frac s = (ds, r) \<Longrightarrow> length r \<le> length s"
  by (auto simp: match_frac_def le_SucI length_dropWhile_le split: list.splits if_splits)

lemma match_sign_le: "match_sign s = (sg, r) \<Longrightarrow> length r \<le> length s"
  by (auto simp: match_sign_def split: list.splits if_splits)

lemma match_exp_le:
  assumes "match_exp s = (ds, r)"
  shows "length r \<le> length s"
proof (cases s)
  case Nil
  with assms show ?thesis by (simp add: match_exp_def)
next
  case (Cons e t)
  obtain sg r1 where sg: "match_sign t = (sg, r1)" by (cases "match_sign t")
  have "length (dropWhile is_digit r1) \<le> length t"
    using match_sign_le [OF sg] length_dropWhile_le [of is_digit r1] by linarith
  with assms Cons sg show ?thesis
    by (auto simp: match_exp_def split: if_splits)
qed

lemma match_number_shorter: "match_number pf s = Some (v, r) \<Longrightarrow> length r < length s"
proof -
  assume a: "match_number pf s = Some (v, r)"
  obtain neg s1 where s1: "(case s of [] \<Rightarrow> ([], s) | c # r \<Rightarrow> if c = 45 then ([c], r) else ([], s)) = (neg, s1)"
    by (cases "(case s of [] \<Rightarrow> ([], s) | c # r \<Rightarrow> if c = 45 then ([c], r) else ([]::nat list, s))")
  then have l1: "length s1 \<le> length s" by (auto split: list.splits if_splits)
  from a s1 obtain integer s2 where s2: "match_int s1 = Some (integer, s2)"
    by (auto simp: match_number_def split: option.splits)
  obtain fpart s3 where s3: "match_frac s2 = (fpart, s3)" by (cases "match_frac s2")
  obtain expo s4 where s4: "match_exp s3 = (expo, s4)" by (cases "match_exp s3")
  from a s1 s2 s3 s4 have "r = s4" by (auto simp: match_number_def split: if_splits)
  then show ?thesis
    using l1 match_int_shorter [OF s2] match_frac_le [OF s3] match_exp_le [OF s4] by simp
qed

definition dict_of_pairs :: "(str \<times> 'v) list \<Rightarrow> (str \<times> 'v) list" where
  "dict_of_pairs ps = foldl (\<lambda>d kv. AList.update (fst kv) (snd kv) d) [] ps"

definition expect :: "nat \<Rightarrow> str \<Rightarrow> str option" where
  "expect c s = (case s of [] \<Rightarrow> None | d # r \<Rightarrow> if d = c then Some r else None)"

lemma expect_shorter: "expect c s = Some r \<Longrightarrow> length r < length s"
  by (auto simp: expect_def split: list.splits if_splits)

definition match_constant :: "(str \<Rightarrow> 'f) \<Rightarrow> str \<Rightarrow> ('f json \<times> str) option" where
  "match_constant parse_float s =
     (case strip_prefix (py_str ''null'') s of
        Some r \<Rightarrow> Some (JNull, r)
      | None \<Rightarrow>
     (case strip_prefix (py_str ''true'') s of
        Some r \<Rightarrow> Some (JBool True, r)
      | None \<Rightarrow>
     (case strip_prefix (py_str ''false'') s of
        Some r \<Rightarrow> Some (JBool False, r)
      | None \<Rightarrow>
     (case strip_prefix (py_str ''NaN'') s of
        Some r \<Rightarrow> Some (JFloat (parse_float (py_str ''NaN'')), r)
      | None \<Rightarrow>
     (case strip_prefix (py_str ''Infinity'') s of
        Some r \<Rightarrow> Some (JFloat (parse_float (py_str ''Infinity'')), r)
      | None \<Rightarrow>
     (case strip_prefix (py_str ''-Infinity'') s of
        Some r \<Rightarrow> Some (JFloat (parse_float (py_str ''-Infinity'')), r)
      | None \<Rightarrow> match_number parse_float s))))))"

text \<open>
  \<^verbatim>\<open>scan_once\<close> reads one value, \<open>parse_array\<close> the elements after \<^verbatim>\<open>[\<close> and
  \<open>parse_object\<close> the members after \<^verbatim>\<open>{\<close>; white space is skipped where the decoder
  skips it. The two loops continue on the input that \<^verbatim>\<open>scan_once\<close> left. The test
  \<open>length r < length s\<close> before each continuation is there for the termination proof
  only: \<open>parse_shorter\<close> shows that it always holds, and \<open>parse_array_unguarded\<close> and
  \<open>parse_object_unguarded\<close> are the loops without it.
\<close>

function scan_once :: "(str \<Rightarrow> 'f) \<Rightarrow> str \<Rightarrow> ('f json \<times> str) option"
  and parse_array :: "(str \<Rightarrow> 'f) \<Rightarrow> str \<Rightarrow> ('f json list \<times> str) option"
  and parse_object :: "(str \<Rightarrow> 'f) \<Rightarrow> str \<Rightarrow> ((str \<times> 'f json) list \<times> str) option"
where
  "scan_once pf s =
     (case s of
        [] \<Rightarrow> None
      | c # cs \<Rightarrow>
          if c = 34 then
            (case scanstring cs of None \<Rightarrow> None | Some (x, r) \<Rightarrow> Some (JStr x, r))
          else if c = 123 then
            (case expect 125 (skip_ws cs) of
               Some r \<Rightarrow> Some (JObj [], r)
             | None \<Rightarrow>
                 (case parse_object pf (skip_ws cs) of
                    None \<Rightarrow> None
                  | Some (pairs, r) \<Rightarrow> Some (JObj (dict_of_pairs pairs), r)))
          else if c = 91 then
            (case expect 93 (skip_ws cs) of
               Some r \<Rightarrow> Some (JArr [], r)
             | None \<Rightarrow>
                 (case parse_array pf (skip_ws cs) of
                    None \<Rightarrow> None
                  | Some (vals, r) \<Rightarrow> Some (JArr vals, r)))
          else match_constant pf s)"
| "parse_array pf s =
     (case scan_once pf s of
        None \<Rightarrow> None
      | Some (v, r) \<Rightarrow>
          (case expect 93 (skip_ws r) of
             Some r' \<Rightarrow> Some ([v], r')
           | None \<Rightarrow>
               (case expect 44 (skip_ws r) of
                  None \<Rightarrow> None
                | Some r' \<Rightarrow>
                    if length r < length s then
                      (case parse_array pf (skip_ws r') of
                         None \<Rightarrow> None
                       | Some (vs, r'') \<Rightarrow> Some (v # vs, r''))
                    else None)))"
| "parse_object pf s =
     (case expect 34 s of
        None \<Rightarrow> None
      | Some s1 \<Rightarrow>
          (case scanstring s1 of
             None \<Rightarrow> None
           | Some (key, s2) \<Rightarrow>
               (case expect 58 (skip_ws s2) of
                  None \<Rightarrow> None
                | Some s3 \<Rightarrow>
                    (case scan_once pf (skip_ws s3) of
                       None \<Rightarrow> None
                     | Some (v, r) \<Rightarrow>
                         (case expect 125 (skip_ws r) of
                            Some r' \<Rightarrow> Some ([(key, v)], r')
                          | None \<Rightarrow>
                              (case expect 44 (skip_ws r) of
                                 None \<Rightarrow> None
                               | Some r' \<Rightarrow>
                                   if length r < length s then
                                     (case parse_object pf (skip_ws r') of
                                        None \<Rightarrow> None
                                      | Some (ps, r'') \<Rightarrow> Some ((key, v) # ps, r''))
                                   else None))))))"
  by pat_completeness auto
termination
proof (relation "measure (\<lambda>x. case x of
          Inl (pf, s) \<Rightarrow> 2 * length s
        | Inr (Inl (pf, s)) \<Rightarrow> 2 * length s + 1
        | Inr (Inr (pf, s)) \<Rightarrow> 2 * length s + 1)", goal_cases)
  case 1
  then show ?case by simp
next
  case (2 pf s c cs)
  then show ?case using length_skip_ws [of cs] by simp
next
  case (3 pf s c cs)
  then show ?case using length_skip_ws [of cs] by simp
next
  case (4 pf s)
  then show ?case by simp
next
  case (5 pf s x2 v r r')
  then show ?case
    using expect_shorter [of 44 "skip_ws r" r'] length_skip_ws [of r] length_skip_ws [of r'] by simp
next
  case (6 pf s s1 x2 key s2 s3)
  then show ?case
    using expect_shorter [of 34 s s1] scanstring_shorter [of s1 key s2]
      expect_shorter [of 58 "skip_ws s2" s3] length_skip_ws [of s2] length_skip_ws [of s3]
    by simp
next
  case (7 pf s s1 x2 key s2 s3 x2a v r r')
  then show ?case
    using expect_shorter [of 44 "skip_ws r" r'] length_skip_ws [of r] length_skip_ws [of r'] by simp
qed


declare scan_once.simps [simp del] parse_array.simps [simp del] parse_object.simps [simp del]

lemma strip_prefix_shorter: "strip_prefix p s = Some r \<Longrightarrow> p \<noteq> [] \<Longrightarrow> length r < length s"
  by (cases s) (auto simp: strip_prefix_def split: if_splits)

lemma match_constant_shorter: "match_constant pf s = Some (v, r) \<Longrightarrow> length r < length s"
  unfolding match_constant_def
  by (auto split: option.splits dest: match_number_shorter strip_prefix_shorter simp: py_str_def)

lemma expect_skip_shorter: "expect c (skip_ws s) = Some r \<Longrightarrow> length r < length s"
  using expect_shorter [of c "skip_ws s" r] length_skip_ws [of s] by simp

lemma parse_shorter:
  "scan_once pf s = Some (v, r) \<Longrightarrow> length r < length s"
  "parse_array pf s1 = Some (vs, r1) \<Longrightarrow> length r1 < length s1"
  "parse_object pf s2 = Some (ps, r2) \<Longrightarrow> length r2 < length s2"
proof (induction pf s and pf s1 and pf s2 arbitrary: v r and vs r1 and ps r2
    rule: scan_once_parse_array_parse_object.induct)
  case (1 pf s)
  from "1.prems" obtain c cs where s: "s = c # cs"
    by (cases s) (auto simp: scan_once.simps)
  consider (str) "c = 34" | (obj) "c \<noteq> 34" "c = 123" | (arr) "c \<noteq> 34" "c \<noteq> 123" "c = 91"
    | (other) "c \<noteq> 34" "c \<noteq> 123" "c \<noteq> 91" by blast
  then show ?case
  proof cases
    case str
    with "1.prems" s obtain x where "scanstring cs = Some (x, r)"
      by (auto simp: scan_once.simps split: option.splits)
    from scanstring_shorter [OF this] s show ?thesis by simp
  next
    case obj
    show ?thesis
    proof (cases "expect 125 (skip_ws cs)")
      case None
      with "1.prems" s obj obtain pairs where p: "parse_object pf (skip_ws cs) = Some (pairs, r)"
        by (auto simp: scan_once.simps split: option.splits)
      from "1.IH"(1) [OF s obj None p] length_skip_ws [of cs] s show ?thesis by simp
    next
      case (Some r')
      with "1.prems" s obj have "r' = r" by (simp add: scan_once.simps)
      with expect_skip_shorter [OF Some] s show ?thesis by simp
    qed
  next
    case arr
    show ?thesis
    proof (cases "expect 93 (skip_ws cs)")
      case None
      with "1.prems" s arr obtain vals where p: "parse_array pf (skip_ws cs) = Some (vals, r)"
        by (auto simp: scan_once.simps split: option.splits)
      from "1.IH"(2) [OF s arr None p] length_skip_ws [of cs] s show ?thesis by simp
    next
      case (Some r')
      with "1.prems" s arr have "r' = r" by (simp add: scan_once.simps)
      with expect_skip_shorter [OF Some] s show ?thesis by simp
    qed
  next
    case other
    with "1.prems" s have "match_constant pf s = Some (v, r)"
      by (simp add: scan_once.simps)
    then show ?thesis by (rule match_constant_shorter)
  qed
next
  case (2 pf s)
  from "2.prems" obtain v r where v: "scan_once pf s = Some (v, r)"
    by (subst (asm) parse_array.simps) (auto split: option.splits)
  note lr = "2.IH"(1) [OF v]
  show ?case
  proof (cases "expect 93 (skip_ws r)")
    case (Some r')
    with "2.prems" v have "r' = r1" by (subst (asm) parse_array.simps) simp
    with expect_skip_shorter [OF Some] lr show ?thesis by simp
  next
    case None
    with "2.prems" v lr obtain r' vs' where c: "expect 44 (skip_ws r) = Some r'"
      and p: "parse_array pf (skip_ws r') = Some (vs', r1)"
      by (subst (asm) parse_array.simps) (auto split: option.splits)
    from "2.IH"(2) [OF v refl None c lr p] length_skip_ws [of r'] expect_skip_shorter [OF c] lr
    show ?thesis by simp
  qed
next
  case (3 pf s)
  from "3.prems" obtain s1 key s2 s3 v r where q: "expect 34 s = Some s1"
    and k: "scanstring s1 = Some (key, s2)" and c: "expect 58 (skip_ws s2) = Some s3"
    and v: "scan_once pf (skip_ws s3) = Some (v, r)"
    by (subst (asm) parse_object.simps) (auto split: option.splits)
  have "length r < length (skip_ws s3)" by (rule "3.IH"(1) [OF q k refl c v])
  then have lr: "length r < length s"
    using length_skip_ws [of s3] expect_skip_shorter [OF c] scanstring_shorter [OF k]
      expect_shorter [OF q] by simp
  show ?case
  proof (cases "expect 125 (skip_ws r)")
    case (Some r')
    with "3.prems" q k c v have "r' = r2" by (subst (asm) parse_object.simps) simp
    with expect_skip_shorter [OF Some] lr show ?thesis by simp
  next
    case None
    with "3.prems" q k c v lr obtain r' ps' where d: "expect 44 (skip_ws r) = Some r'"
      and p: "parse_object pf (skip_ws r') = Some (ps', r2)"
      by (subst (asm) parse_object.simps) (auto split: option.splits)
    from "3.IH"(2) [OF q k refl c v refl None d lr p] length_skip_ws [of r']
      expect_skip_shorter [OF d] lr
    show ?thesis by simp
  qed
qed


lemma parse_array_unguarded:
  "parse_array pf s =
     (case scan_once pf s of
        None \<Rightarrow> None
      | Some (v, r) \<Rightarrow>
          (case expect 93 (skip_ws r) of
             Some r' \<Rightarrow> Some ([v], r')
           | None \<Rightarrow>
               (case expect 44 (skip_ws r) of
                  None \<Rightarrow> None
                | Some r' \<Rightarrow>
                    (case parse_array pf (skip_ws r') of
                       None \<Rightarrow> None
                     | Some (vs, r'') \<Rightarrow> Some (v # vs, r'')))))"
  by (subst parse_array.simps) (auto split: option.splits dest: parse_shorter(1))

lemma parse_object_unguarded:
  "parse_object pf s =
     (case expect 34 s of
        None \<Rightarrow> None
      | Some s1 \<Rightarrow>
          (case scanstring s1 of
             None \<Rightarrow> None
           | Some (key, s2) \<Rightarrow>
               (case expect 58 (skip_ws s2) of
                  None \<Rightarrow> None
                | Some s3 \<Rightarrow>
                    (case scan_once pf (skip_ws s3) of
                       None \<Rightarrow> None
                     | Some (v, r) \<Rightarrow>
                         (case expect 125 (skip_ws r) of
                            Some r' \<Rightarrow> Some ([(key, v)], r')
                          | None \<Rightarrow>
                              (case expect 44 (skip_ws r) of
                                 None \<Rightarrow> None
                               | Some r' \<Rightarrow>
                                   (case parse_object pf (skip_ws r') of
                                      None \<Rightarrow> None
                                    | Some (ps, r'') \<Rightarrow> Some ((key, v) # ps, r''))))))))"
proof -
  have "length r < length s"
    if "expect 34 s = Some s1" "scanstring s1 = Some (key, s2)" "expect 58 (skip_ws s2) = Some s3"
      "scan_once pf (skip_ws s3) = Some (v, r)" for s1 key s2 s3 v r
    using that parse_shorter(1) [of pf "skip_ws s3" v r] length_skip_ws [of s3]
      expect_skip_shorter [of 58 s2 s3] scanstring_shorter [of s1 key s2] expect_shorter [of 34 s s1]
    by simp
  then show ?thesis
    by (subst parse_object.simps) (auto split: option.splits)
qed

definition loads :: "(str \<Rightarrow> 'f) \<Rightarrow> str \<Rightarrow> py_error + 'f json" where
  "loads parse_float s =
     (if take 1 s = [65279] then Inl JSONDecodeError
      else
        (case scan_once parse_float (skip_ws s) of
           None \<Rightarrow> Inl JSONDecodeError
         | Some (obj, r) \<Rightarrow> if skip_ws r = [] then Inr obj else Inl JSONDecodeError))"


section \<open>The platform, the network and the store\<close>

text \<open>
  What the interpreter supplies: \<^verbatim>\<open>sys.version_info[:3]\<close>, the two float
  conversions used by \<^verbatim>\<open>json\<close>, \<^verbatim>\<open>sys.get_int_max_str_digits()\<close>, and the stack
  that is left where \<^verbatim>\<open>mastQuery\<close> calls \<^verbatim>\<open>json.dumps\<close>. An interpreter that runs
  \<^verbatim>\<open>resolve\<close> at all has the stack for the two levels of the dictionary that
  \<^verbatim>\<open>resolve\<close> builds; \<open>nesting_margin\<close> is the number of further levels of nesting
  that \<^verbatim>\<open>json.dumps\<close> can enter.
\<close>

record 'f platform =
  version_info :: "nat \<times> nat \<times> nat"
  float_repr :: "'f \<Rightarrow> str"
  parse_float :: "str \<Rightarrow> 'f"
  int_max_str_digits :: nat
  nesting_margin :: nat

text \<open>\<^verbatim>\<open>json.dumps(obj)\<close> on a platform: the text, or the first exception.\<close>

definition dumps :: "'f platform \<Rightarrow> 'f json \<Rightarrow> py_error + str" where
  "dumps P obj =
     (case dumps_raises (int_max_str_digits P) (Suc (Suc (nesting_margin P))) obj of
        Some e \<Rightarrow> Inl e
      | None \<Rightarrow> Inr (json_text (float_repr P) obj))"

text \<open>
  The arguments of \<^verbatim>\<open>conn.request(method, url, body, headers)\<close> on a connection
  made by \<^verbatim>\<open>HTTPSConnection(host)\<close>.
\<close>

record http_request =
  rq_host :: str
  rq_method :: str
  rq_url :: str
  rq_body :: str
  rq_headers :: "(str \<times> str) list"

text \<open>
  The remote service decides how an exchange goes: \<^verbatim>\<open>conn.request\<close> raises,
  \<^verbatim>\<open>conn.getresponse\<close> raises, \<^verbatim>\<open>resp.read().decode('utf-8')\<close> raises after the
  headers were received, or the headers and the decoded body arrive. The service is a
  function of the request.
\<close>

datatype exchange =
    RequestRaises py_error
  | GetResponseRaises py_error
  | ReadRaises "(str \<times> str) list" py_error
  | Response "(str \<times> str) list" str

type_synonym service = "http_request \<Rightarrow> exchange"

text \<open>
  The calls made on connection objects, in order, and for each connection object whether
  \<^verbatim>\<open>conn.close()\<close> has been called on it. Connection \<open>c\<close> is the \<open>c\<close>-th object
  ever created.
\<close>

datatype event =
    EvConnection nat str
  | EvRequest nat http_request
  | EvGetResponse nat
  | EvGetHeaders nat
  | EvRead nat
  | EvClose nat

datatype conn_state = Open | Closed

text \<open>
  The state outside the functions: the objects passed by reference (a request dictionary
  lives at an address of the store), the connection objects and the trace of calls.
\<close>

record 'f world =
  heap :: "nat \<Rightarrow> 'f json"
  next_addr :: nat
  connections :: "conn_state list"
  trace :: "event list"

definition new_object :: "'f json \<Rightarrow> 'f world \<Rightarrow> nat \<times> 'f world" where
  "new_object v w =
     (next_addr w, w\<lparr>heap := (heap w)(next_addr w := v), next_addr := Suc (next_addr w)\<rparr>)"

definition HTTPSConnection :: "str \<Rightarrow> 'f world \<Rightarrow> nat \<times> 'f world" where
  "HTTPSConnection server w =
     (length (connections w),
      w\<lparr>connections := connections w @ [Open],
        trace := trace w @ [EvConnection (length (connections w)) server]\<rparr>)"

definition called :: "event list \<Rightarrow> 'f world \<Rightarrow> 'f world" where
  "called evs w = w\<lparr>trace := trace w @ evs\<rparr>"

definition close :: "nat \<Rightarrow> 'f world \<Rightarrow> 'f world" where
  "close conn w = w\<lparr>connections := (connections w)[conn := Closed], trace := trace w @ [EvClose conn]\<rparr>"

section \<open>The name resolver\<close>

subsection \<open>The \<^verbatim>\<open>try\<close> statement of \<^verbatim>\<open>resolve\<close>\<close>

text \<open>
  \<^verbatim>\<open>
    try:
        objRa = resolvedObject['resolvedCoordinate'][0]['ra']
        objDec = resolvedObject['resolvedCoordinate'][0]['decl']
    except IndexError as e:
        raise ValueError("Unknown object '{}'".format(name))
    return (objRa, objDec)
  \<close>
\<close>

definition try_body :: "'f json \<Rightarrow> py_error + ('f json \<times> 'f json)" where
  "try_body resolvedObject =
     (case getitem3 resolvedObject (Key (py_str ''resolvedCoordinate'')) (Index 0) (Key (py_str ''ra'')) of
        Inl e \<Rightarrow> Inl e
      | Inr objRa \<Rightarrow>
          (case getitem3 resolvedObject (Key (py_str ''resolvedCoordinate'')) (Index 0) (Key (py_str ''decl'')) of
             Inl e \<Rightarrow> Inl e
           | Inr objDec \<Rightarrow> Inr (objRa, objDec)))"

definition unknown_object :: "str \<Rightarrow> str" where
  "unknown_object name = py_str ''Unknown object '' @ [39] @ name @ [39]"

definition coordinates :: "str \<Rightarrow> 'f json \<Rightarrow> py_error + ('f json \<times> 'f json)" where
  "coordinates name resolvedObject =
     (case try_body resolvedObject of
        Inl IndexError \<Rightarrow> Inl (ValueError (unknown_object name))
      | Inl e \<Rightarrow> Inl e
      | Inr c \<Rightarrow> Inr c)"

subsection \<open>\<^verbatim>\<open>mastQuery\<close>\<close>

text \<open>
  \<^verbatim>\<open>
    server='mast.stsci.edu'
    version = ".".join(map(str, sys.version_info[:3]))
    headers = {"Content-type": "application/x-www-form-urlencoded",
               "Accept": "text/plain",
               "User-agent":"python-requests/"+version}
    requestString = json.dumps(request)
    requestString = urlencode(requestString)
    conn = httplib.HTTPSConnection(server)
    conn.request("POST", "/api/v0/invoke", "request="+requestString, headers)
    resp = conn.getresponse()
    head = resp.getheaders()
    content = resp.read().decode('utf-8')
    conn.close()
    return head,content
  \<close>
  The argument \<open>request\<close> is the address of the dictionary. There is no
  \<^verbatim>\<open>try\<close> in the function: an exception of any call leaves it at once, that of
  \<^verbatim>\<open>json.dumps\<close> or of \<^verbatim>\<open>urlencode\<close> before any connection is made.
\<close>

definition version :: "'f platform \<Rightarrow> str" where
  "version P =
     join (py_str ''.'')
       (map str_of_nat (case version_info P of (major, minor, micro) \<Rightarrow> [major, minor, micro]))"

definition headers :: "'f platform \<Rightarrow> (str \<times> str) list" where
  "headers P =
     [(py_str ''Content-type'', py_str ''application/x-www-form-urlencoded''),
      (py_str ''Accept'', py_str ''text/plain''),
      (py_str ''User-agent'', py_str ''python-requests/'' @ version P)]"

text \<open>
  The request that \<^verbatim>\<open>conn.request("POST", "/api/v0/invoke", "request="+requestString, headers)\<close>
  puts on a connection to \<open>server\<close>.
\<close>

definition post :: "'f platform \<Rightarrow> str \<Rightarrow> str \<Rightarrow> http_request" where
  "post P server requestString =
     \<lparr>rq_host = server, rq_method = py_str ''POST'', rq_url = py_str ''/api/v0/invoke'',
      rq_body = py_str ''request='' @ requestString, rq_headers = headers P\<rparr>"

definition mastQuery ::
  "'f platform \<Rightarrow> service \<Rightarrow> nat \<Rightarrow> 'f world \<Rightarrow> (py_error + (str \<times> str) list \<times> str) \<times> 'f world" where
  "mastQuery P srv request w =
     (let server = py_str ''mast.stsci.edu''
      in case dumps P (heap w request) of
           Inl e \<Rightarrow> (Inl e, w)
         | Inr requestString \<Rightarrow>
         (case quote requestString of
           Inl e \<Rightarrow> (Inl e, w)
         | Inr requestString \<Rightarrow>
             (case HTTPSConnection server w of
                (conn, w1) \<Rightarrow>
                  (let rq = post P server requestString
                   in case srv rq of
                        RequestRaises e \<Rightarrow> (Inl e, called [EvRequest conn rq] w1)
                      | GetResponseRaises e \<Rightarrow>
                          (Inl e, called [EvRequest conn rq, EvGetResponse conn] w1)
                      | ReadRaises head e \<Rightarrow>
                          (Inl e,
                           called [EvRequest conn rq, EvGetResponse conn, EvGetHeaders conn, EvRead conn] w1)
                      | Response head content \<Rightarrow>
                          (Inr (head, content),
                           close conn
                             (called [EvRequest conn rq, EvGetResponse conn, EvGetHeaders conn, EvRead conn]
                                w1))))))"

subsection \<open>\<^verbatim>\<open>resolve\<close>\<close>

text \<open>
  \<^verbatim>\<open>
    resolverRequest = {'service':'Mast.Name.Lookup',
                       'params':{'input':name,
                                 'format':'json'
                                },
                      }
    headers,resolvedObjectString = mastQuery(resolverRequest)
    resolvedObject = json.loads(resolvedObjectString)
  \<close>
  followed by the \<^verbatim>\<open>try\<close> statement above.
\<close>

definition resolverRequest :: "str \<Rightarrow> 'f json" where
  "resolverRequest name =
     JObj [(py_str ''service'', JStr (py_str ''Mast.Name.Lookup'')),
           (py_str ''params'',
            JObj [(py_str ''input'', JStr name),
                  (py_str ''format'', JStr (py_str ''json''))])]"

definition resolve ::
  "'f platform \<Rightarrow> service \<Rightarrow> str \<Rightarrow> 'f world \<Rightarrow> (py_error + 'f json \<times> 'f json) \<times> 'f world" where
  "resolve P srv name w =
     (case new_object (resolverRequest name) w of
        (request, w1) \<Rightarrow>
          (case mastQuery P srv request w1 of
             (Inl e, w2) \<Rightarrow> (Inl e, w2)
           | (Inr (head, resolvedObjectString), w2) \<Rightarrow>
               (case loads (parse_float P) resolvedObjectString of
                  Inl e \<Rightarrow> (Inl e, w2)
                | Inr resolvedObject \<Rightarrow> (coordinates name resolvedObject, w2))))"

section \<open>Notions used to state the properties\<close>

text \<open>
  What \<^verbatim>\<open>mastQuery(resolverRequest)\<close> hands back to \<^verbatim>\<open>resolve\<close>: the first two
  statements of \<^verbatim>\<open>resolve\<close>.
\<close>

definition mast_response ::
  "'f platform \<Rightarrow> service \<Rightarrow> str \<Rightarrow> 'f world \<Rightarrow> (py_error + (str \<times> str) list \<times> str) \<times> 'f world" where
  "mast_response P srv name w =
     (case new_object (resolverRequest name) w of (request, w1) \<Rightarrow> mastQuery P srv request w1)"

text \<open>
  A platform, a stub service and a world for running the functions on concrete input. The
  platform keeps a float as the text of its literal (a number literal is ASCII text, and
  only ASCII text is printed), has the default limit of 4300 digits and a stack for 900
  further levels; the stub service answers every
  request with the same body and no headers; the world has no connection yet.
\<close>

definition literal_floats :: "str platform" where
  "literal_floats =
     \<lparr>version_info = (3, 11, 10), float_repr = filter (\<lambda>c. c < 128), parse_float = (\<lambda>s. s),
      int_max_str_digits = 4300, nesting_margin = 900\<rparr>"

definition stub_service :: "str \<Rightarrow> service" where
  "stub_service content = (\<lambda>rq. Response [] content)"

definition empty_world :: "'f world" where
  "empty_world = \<lparr>heap = (\<lambda>a. JNull), next_addr = 0, connections = [], trace = []\<rparr>"

text \<open>Text that \<^verbatim>\<open>str.isascii\<close> accepts.\<close>

definition ascii :: "str \<Rightarrow> bool" where
  "ascii s = list_all (\<lambda>c. c < 128) s"


text \<open>
  The requests put on the wire, read off a trace in order.
\<close>

fun requests :: "event list \<Rightarrow> http_request list" where
  "requests [] = []"
| "requests (EvRequest conn rq # evs) = rq # requests evs"
| "requests (ev # evs) = requests evs"

text \<open>
  The value of a header as HTTP reads it: field names are compared without regard to
  case (\<^verbatim>\<open>Content-type\<close> is \<^verbatim>\<open>Content-Type\<close>).
\<close>

definition lower :: "nat \<Rightarrow> nat" where
  "lower c = (if 65 \<le> c \<and> c \<le> 90 then c + 32 else c)"

definition header_value :: "str \<Rightarrow> (str \<times> str) list \<Rightarrow> str option" where
  "header_value name hs = map_of (map (\<lambda>kv. (map lower (fst kv), snd kv)) hs) (map lower name)"

text \<open>
  What \<^verbatim>\<open>resolve\<close> makes of an exchange, as a function of the exchange alone.
\<close>

definition outcome :: "'f platform \<Rightarrow> str \<Rightarrow> exchange \<Rightarrow> py_error + 'f json \<times> 'f json" where
  "outcome P name x =
     (case x of
        RequestRaises e \<Rightarrow> Inl e
      | GetResponseRaises e \<Rightarrow> Inl e
      | ReadRaises head e \<Rightarrow> Inl e
      | Response head content \<Rightarrow>
          (case loads (parse_float P) content of
             Inl e \<Rightarrow> Inl e
           | Inr resolvedObject \<Rightarrow> coordinates name resolvedObject))"

text \<open>
  The number a decoded value stands for, given the real value of a finite float (none for
  \<^verbatim>\<open>nan\<close> and the infinities), and the range of a coordinate in degrees:
  right ascension in \<open>[0, 360)\<close>, declination in \<open>[-90, 90]\<close>.
\<close>

definition number_value :: "('f \<Rightarrow> real option) \<Rightarrow> 'f json \<Rightarrow> real option" where
  "number_value float_value v =
     (case v of JInt i \<Rightarrow> Some (of_int i) | JFloat x \<Rightarrow> float_value x | _ \<Rightarrow> None)"

definition in_range :: "('f \<Rightarrow> real option) \<Rightarrow> 'f json \<times> 'f json \<Rightarrow> bool" where
  "in_range float_value c =
     (case (number_value float_value (fst c), number_value float_value (snd c)) of
        (Some ra, Some decl) \<Rightarrow> 0 \<le> ra \<and> ra < 360 \<and> - 90 \<le> decl \<and> decl \<le> 90
      | _ \<Rightarrow> False)"

text \<open>An integer of 4301 decimal digits.\<close>

definition long_int :: int where
  "long_int = 10 ^ 4300"

text \<open>Python's \<^verbatim>\<open>sub in s\<close> on strings.\<close>

fun str_contains :: "str \<Rightarrow> str \<Rightarrow> bool" where
  "str_contains sub [] = (sub = [])"
| "str_contains sub (c # cs) = (take (length sub) (c # cs) = sub \<or> str_contains sub cs)"

text \<open>
  The JSON text of the request for the name \<^verbatim>\<open>KQ UMa\<close> and the body that carries it.
\<close>

definition KQ_UMa_json :: str where
  "KQ_UMa_json = py_str
     ''{\"service\": \"Mast.Name.Lookup\", \"params\": {\"input\": \"KQ UMa\", \"format\": \"json\"}}''"

definition KQ_UMa_body :: str where
  "KQ_UMa_body = py_str
     ''request=%7B%22service%22%3A%20%22Mast.Name.Lookup%22%2C%20%22params%22%3A%20%7B%22input%22%3A%20%22KQ%20UMa%22%2C%20%22format%22%3A%20%22json%22%7D%7D''"

section \<open>Lemmas\<close>

lemma resolve_decoded:
  assumes "mast_response P srv name w = (Inr (head, resolvedObjectString), w')"
    and "loads (parse_float P) resolvedObjectString = Inr resolvedObject"
  shows "resolve P srv name w = (coordinates name resolvedObject, w')"
  using assms by (simp add: resolve_def mast_response_def split: prod.splits)

lemma resolve_not_decoded:
  assumes "mast_response P srv name w = (Inr (head, resolvedObjectString), w')"
    and "loads (parse_float P) resolvedObjectString = Inl e"
  shows "resolve P srv name w = (Inl e, w')"
  using assms by (simp add: resolve_def mast_response_def split: prod.splits)

lemma resolve_no_response:
  assumes "mast_response P srv name w = (Inl e, w')"
  shows "resolve P srv name w = (Inl e, w')"
  using assms by (simp add: resolve_def mast_response_def split: prod.splits)

lemma coordinates_empty_array:
  assumes "getitem resolvedObject (Key (py_str ''resolvedCoordinate'')) = Inr (JArr [])"
  shows "coordinates name resolvedObject = Inl (ValueError (unknown_object name))"
  using assms by (simp add: coordinates_def try_body_def getitem3_def seq_item_def)

lemmas json_eval = loads_def scan_once.simps parse_array.simps parse_object.simps
  expect_def skip_ws_def is_ws_def unescape_def hex4_value_def hex_value_def simple_escape_def
  with_char_def match_constant_def strip_prefix_def match_number_def match_int_def match_frac_def
  match_exp_def match_sign_def is_digit_def int_of_str_def dict_of_pairs_def

lemma ascii_Nil: "ascii []"
  by (simp add: ascii_def)

lemma ascii_Cons: "ascii (c # s) \<longleftrightarrow> c < 128 \<and> ascii s"
  by (simp add: ascii_def)

lemma ascii_append: "ascii (a @ b) \<longleftrightarrow> ascii a \<and> ascii b"
  by (simp add: ascii_def)

lemma ascii_concat: "list_all ascii xs \<Longrightarrow> ascii (concat xs)"
  by (induction xs) (simp_all add: ascii_Nil ascii_append)

lemma hex_lower_ascii: "d < 16 \<Longrightarrow> hex_lower d < 128"
  by (simp add: hex_lower_def)

lemma u_escape_ascii: "ascii (u_escape n)"
  by (simp add: u_escape_def ascii_Cons ascii_Nil hex_lower_ascii)

lemma escape_ascii_ascii: "ascii (escape_ascii c)"
  by (simp add: escape_ascii_def ascii_Cons ascii_Nil ascii_append u_escape_ascii)

lemma encode_basestring_ascii_ascii: "ascii (encode_basestring_ascii s)"
  unfolding encode_basestring_ascii_def
  by (simp add: ascii_Cons ascii_Nil ascii_append ascii_concat list_all_iff escape_ascii_ascii)

lemma str_of_nat_ascii: "ascii (str_of_nat n)"
proof (induction n rule: str_of_nat.induct)
  case (1 n)
  show ?case
  proof (cases "n < 10")
    case True
    then show ?thesis by (subst str_of_nat.simps) (simp add: ascii_Cons ascii_Nil)
  next
    case False
    have "n mod 10 < 10" by simp
    then have "48 + n mod 10 < 128" by linarith
    with False "1.IH" show ?thesis
      by (subst str_of_nat.simps) (simp add: ascii_Cons ascii_Nil ascii_append)
  qed
qed

lemma join_ascii: "ascii sep \<Longrightarrow> list_all ascii xs \<Longrightarrow> ascii (join sep xs)"
  by (induction sep xs rule: join.induct) (simp_all add: ascii_Nil ascii_append)

lemma py_str_ascii: "list_all (\<lambda>c. of_char c < (128::nat)) cs \<Longrightarrow> ascii (py_str cs)"
  by (simp add: ascii_def py_str_def list_all_iff)

lemma json_text_ascii: "(\<forall>x. ascii (fr x)) \<Longrightarrow> ascii (json_text fr v)"
proof (induction fr v rule: json_text.induct)
  case (6 fr xs)
  then have "list_all ascii (map (json_text fr) xs)" by (simp add: list_all_iff)
  then show ?case
    by (simp add: ascii_Cons ascii_Nil ascii_append join_ascii py_str_ascii)
next
  case (7 fr d)
  then have "list_all ascii
      (map (\<lambda>kv. encode_basestring_ascii (fst kv) @ py_str '': '' @ json_text fr (snd kv)) d)"
    by (simp add: list_all_iff ascii_append encode_basestring_ascii_ascii py_str_ascii)
  then show ?case
    by (simp add: ascii_Cons ascii_Nil ascii_append join_ascii py_str_ascii)
qed (simp_all add: py_str_ascii repr_int_def ascii_Cons str_of_nat_ascii encode_basestring_ascii_ascii)

lemma utf8_encode_ascii: "ascii s \<Longrightarrow> utf8_encode s = Inr s"
  by (induction s) (simp_all add: ascii_Cons utf8_encode_char_def)

lemma quote_ascii: "ascii s \<Longrightarrow> quote s = Inr (concat (map quote_byte s))"
  by (simp add: quote_def utf8_encode_ascii)


lemma json_text_resolverRequest:
  "json_text fr (resolverRequest name) =
     py_str ''{\"service\": \"Mast.Name.Lookup\", \"params\": {\"input\": '' @
     encode_basestring_ascii name @ py_str '', \"format\": \"json\"}}''"
  by (simp add: resolverRequest_def py_str_def encode_basestring_ascii_def escape_ascii_def)

lemma json_text_resolverRequest_ascii: "ascii (json_text fr (resolverRequest name))"
  unfolding json_text_resolverRequest
  by (simp add: ascii_append encode_basestring_ascii_ascii py_str_ascii)

lemma quote_resolverRequest:
  "quote (json_text fr (resolverRequest name)) = Inr (concat (map quote_byte (json_text fr (resolverRequest name))))"
  by (rule quote_ascii) (rule json_text_resolverRequest_ascii)

lemma dumps_resolverRequest:
  "dumps P (resolverRequest name) = Inr (json_text (float_repr P) (resolverRequest name))"
  by (simp add: dumps_def resolverRequest_def)

lemma dumps_raises_pos:
  "0 < d \<Longrightarrow> dumps_raises m d (JArr xs) = first_raised (map (dumps_raises m (d - 1)) xs)"
  "0 < d \<Longrightarrow> dumps_raises m d (JObj kvs) = first_raised (map (\<lambda>kv. dumps_raises m (d - 1) (snd kv)) kvs)"
  by (cases d; simp)+

lemma mastQuery_dumps_raises:
  assumes "dumps P (heap w request) = Inl e"
  shows "mastQuery P srv request w = (Inl e, w)"
  using assms by (simp add: mastQuery_def Let_def)

lemma str_of_nat_length: "10 ^ k \<le> n \<Longrightarrow> k < length (str_of_nat n)"
proof (induction k arbitrary: n)
  case 0
  show ?case by (subst str_of_nat.simps) simp
next
  case (Suc k)
  have "(1::nat) \<le> 10 ^ k" by simp
  moreover from Suc.prems have "10 * 10 ^ k \<le> n" by simp
  ultimately have n: "\<not> n < 10" and d: "10 ^ k \<le> n div 10" by linarith+
  from Suc.IH [OF d] n show ?case by (subst str_of_nat.simps) simp
qed

lemma nat_abs_power_10: "nat \<bar>(10::int) ^ k\<bar> = 10 ^ k"
  by (simp add: nat_power_eq)

lemma long_int_too_long: "int_too_long 4300 long_int"
proof -
  have "(10::nat) ^ 4300 \<le> 10 ^ 4300" by (rule order_refl)
  then have "4300 < length (str_of_nat (10 ^ 4300))" by (rule str_of_nat_length)
  then have "4300 < length (str_of_nat (nat \<bar>long_int\<bar>))"
    unfolding long_int_def nat_abs_power_10 .
  moreover have "(0::nat) < 4300" by simp
  ultimately show ?thesis unfolding int_too_long_def by (rule conjI [rotated])
qed

lemma mastQuery_quote_raises:
  assumes "dumps P (heap w request) = Inr text"
    and "quote text = Inl e"
  shows "mastQuery P srv request w = (Inl e, w)"
  using assms by (simp add: mastQuery_def Let_def)

lemma mastQuery_Response:
  assumes "dumps P (heap w request) = Inr text"
    and "quote text = Inr qs"
    and "srv (post P (py_str ''mast.stsci.edu'') qs) = Response head content"
  shows "mastQuery P srv request w =
     (Inr (head, content),
      w\<lparr>connections := connections w @ [Closed],
        trace := trace w @
          [EvConnection (length (connections w)) (py_str ''mast.stsci.edu''),
           EvRequest (length (connections w)) (post P (py_str ''mast.stsci.edu'') qs),
           EvGetResponse (length (connections w)), EvGetHeaders (length (connections w)),
           EvRead (length (connections w)), EvClose (length (connections w))]\<rparr>)"
  using assms by (simp add: mastQuery_def HTTPSConnection_def called_def close_def Let_def)

lemma mastQuery_RequestRaises:
  assumes "dumps P (heap w request) = Inr text"
    and "quote text = Inr qs"
    and "srv (post P (py_str ''mast.stsci.edu'') qs) = RequestRaises e"
  shows "mastQuery P srv request w =
     (Inl e,
      w\<lparr>connections := connections w @ [Open],
        trace := trace w @
          [EvConnection (length (connections w)) (py_str ''mast.stsci.edu''),
           EvRequest (length (connections w)) (post P (py_str ''mast.stsci.edu'') qs)]\<rparr>)"
  using assms by (simp add: mastQuery_def HTTPSConnection_def called_def close_def Let_def)

lemma mastQuery_GetResponseRaises:
  assumes "dumps P (heap w request) = Inr text"
    and "quote text = Inr qs"
    and "srv (post P (py_str ''mast.stsci.edu'') qs) = GetResponseRaises e"
  shows "mastQuery P srv request w =
     (Inl e,
      w\<lparr>connections := connections w @ [Open],
        trace := trace w @
          [EvConnection (length (connections w)) (py_str ''mast.stsci.edu''),
           EvRequest (length (connections w)) (post P (py_str ''mast.stsci.edu'') qs),
           EvGetResponse (length (connections w))]\<rparr>)"
  using assms by (simp add: mastQuery_def HTTPSConnection_def called_def close_def Let_def)

lemma mastQuery_ReadRaises:
  assumes "dumps P (heap w request) = Inr text"
    and "quote text = Inr qs"
    and "srv (post P (py_str ''mast.stsci.edu'') qs) = ReadRaises head e"
  shows "mastQuery P srv request w =
     (Inl e,
      w\<lparr>connections := connections w @ [Open],
        trace := trace w @
          [EvConnection (length (connections w)) (py_str ''mast.stsci.edu''),
           EvRequest (length (connections w)) (post P (py_str ''mast.stsci.edu'') qs),
           EvGetResponse (length (connections w)), EvGetHeaders (length (connections w)),
           EvRead (length (connections w))]\<rparr>)"
  using assms by (simp add: mastQuery_def HTTPSConnection_def called_def close_def Let_def)

lemma mast_response_Response:
  assumes "srv (post P (py_str ''mast.stsci.edu'')
      (concat (map quote_byte (json_text (float_repr P) (resolverRequest name))))) = Response head content"
  shows "fst (mast_response P srv name w) = Inr (head, content)"
  using assms
  by (simp add: mast_response_def new_object_def mastQuery_def Let_def dumps_resolverRequest quote_resolverRequest
      HTTPSConnection_def)

lemma mast_response_stub:
  "mast_response P (stub_service content) name w =
     (Inr ([], content), snd (mast_response P (stub_service content) name w))"
  using mast_response_Response [of "stub_service content" P name "[]" content w]
  by (simp add: stub_service_def prod_eq_iff)

lemma mastQuery_heap: "heap (snd (mastQuery P srv request w)) = heap w"
  by (simp add: mastQuery_def HTTPSConnection_def called_def close_def Let_def
      split: sum.splits exchange.splits)

lemma getitem_Key_error: "getitem v (Key k) = Inl e \<Longrightarrow> e = TypeError \<or> e = KeyError (Key k)"
  by (cases v) (auto split: option.splits)

lemma getitem_Index_0:
  "getitem v (Index 0) = Inr y \<Longrightarrow>
     (\<exists>rest. v = JArr (y # rest)) \<or> (\<exists>c rest. v = JStr (c # rest) \<and> y = JStr [c])"
  by (cases v) (auto simp: seq_item_def neq_Nil_conv split: if_splits sum.splits)

lemma getitem_Index_0_error:
  "getitem v (Index 0) = Inl e \<Longrightarrow>
     (e = IndexError \<and> (v = JArr [] \<or> v = JStr [])) \<or> e = TypeError \<or> e = KeyError (Index 0)"
  by (cases v) (auto simp: seq_item_def split: if_splits sum.splits)

lemma getitem3_Inr:
  assumes "getitem3 obj (Key k1) (Index 0) (Key k3) = Inr a"
  shows "\<exists>first rest. getitem obj (Key k1) = Inr (JArr (first # rest)) \<and> getitem first (Key k3) = Inr a"
proof -
  from assms obtain x y where x: "getitem obj (Key k1) = Inr x" and y: "getitem x (Index 0) = Inr y"
    and a: "getitem y (Key k3) = Inr a"
    by (auto simp: getitem3_def split: sum.splits)
  from getitem_Index_0 [OF y] a obtain rest where "x = JArr (y # rest)" by auto
  with x a show ?thesis by blast
qed

lemma try_body_Inr:
  assumes "try_body obj = Inr (a, d)"
  shows "\<exists>first rest. getitem obj (Key (py_str ''resolvedCoordinate'')) = Inr (JArr (first # rest)) \<and>
          getitem first (Key (py_str ''ra'')) = Inr a \<and> getitem first (Key (py_str ''decl'')) = Inr d"
proof -
  from assms have a: "getitem3 obj (Key (py_str ''resolvedCoordinate'')) (Index 0) (Key (py_str ''ra'')) = Inr a"
    and d: "getitem3 obj (Key (py_str ''resolvedCoordinate'')) (Index 0) (Key (py_str ''decl'')) = Inr d"
    by (auto simp: try_body_def split: sum.splits)
  from getitem3_Inr [OF a] getitem3_Inr [OF d] show ?thesis by auto
qed

lemma try_body_first:
  assumes "getitem obj (Key (py_str ''resolvedCoordinate'')) = Inr (JArr (first # rest))"
  shows "try_body obj =
     (case getitem first (Key (py_str ''ra'')) of
        Inl e \<Rightarrow> Inl e
      | Inr a \<Rightarrow> (case getitem first (Key (py_str ''decl'')) of Inl e \<Rightarrow> Inl e | Inr d \<Rightarrow> Inr (a, d)))"
  using assms by (simp add: try_body_def getitem3_def seq_item_def split: sum.splits)

lemma try_body_IndexError:
  "try_body obj = Inl IndexError \<longleftrightarrow>
     getitem obj (Key (py_str ''resolvedCoordinate'')) = Inr (JArr []) \<or>
     getitem obj (Key (py_str ''resolvedCoordinate'')) = Inr (JStr [])"
proof
  assume l: "try_body obj = Inl IndexError"
  show "getitem obj (Key (py_str ''resolvedCoordinate'')) = Inr (JArr []) \<or>
     getitem obj (Key (py_str ''resolvedCoordinate'')) = Inr (JStr [])"
  proof (cases "getitem obj (Key (py_str ''resolvedCoordinate''))")
    case (Inl e)
    with l getitem_Key_error [OF Inl] show ?thesis
      by (auto simp: try_body_def getitem3_def)
  next
    case (Inr x)
    show ?thesis
    proof (cases "getitem x (Index 0)")
      case (Inl e)
      with l Inr have "e = IndexError" by (simp add: try_body_def getitem3_def)
      with getitem_Index_0_error [OF Inl] Inr show ?thesis by auto
    next
      case y: (Inr y)
      from l Inr y have "getitem y (Key (py_str ''ra'')) = Inl IndexError \<or>
          getitem y (Key (py_str ''decl'')) = Inl IndexError"
        by (auto simp: try_body_def getitem3_def split: sum.splits)
      then show ?thesis using getitem_Key_error by blast
    qed
  qed
next
  assume "getitem obj (Key (py_str ''resolvedCoordinate'')) = Inr (JArr []) \<or>
     getitem obj (Key (py_str ''resolvedCoordinate'')) = Inr (JStr [])"
  then show "try_body obj = Inl IndexError"
    by (auto simp: try_body_def getitem3_def seq_item_def)
qed

lemma coordinates_ValueError:
  "coordinates name obj = Inl (ValueError m) \<longleftrightarrow>
     m = unknown_object name \<and>
     (getitem obj (Key (py_str ''resolvedCoordinate'')) = Inr (JArr []) \<or>
      getitem obj (Key (py_str ''resolvedCoordinate'')) = Inr (JStr []))"
proof -
  have no: "try_body obj \<noteq> Inl (ValueError m)"
  proof
    assume v: "try_body obj = Inl (ValueError m)"
    show False
    proof (cases "getitem obj (Key (py_str ''resolvedCoordinate''))")
      case (Inl e)
      with v getitem_Key_error [OF Inl] show False by (auto simp: try_body_def getitem3_def)
    next
      case (Inr x)
      show False
      proof (cases "getitem x (Index 0)")
        case (Inl e)
        with v Inr getitem_Index_0_error [OF Inl] show False
          by (auto simp: try_body_def getitem3_def)
      next
        case y: (Inr y)
        from v Inr y have "getitem y (Key (py_str ''ra'')) = Inl (ValueError m) \<or>
            getitem y (Key (py_str ''decl'')) = Inl (ValueError m)"
          by (auto simp: try_body_def getitem3_def split: sum.splits)
        then show False using getitem_Key_error by blast
      qed
    qed
  qed
  show ?thesis
  proof (cases "try_body obj")
    case (Inl e)
    with no try_body_IndexError [of obj] show ?thesis
      by (cases e) (auto simp: coordinates_def)
  next
    case (Inr c)
    with try_body_IndexError [of obj] show ?thesis by (auto simp: coordinates_def)
  qed
qed

lemma loads_stub_KQ_UMa:
  "loads pf (py_str ''{\"resolvedCoordinate\":[{\"ra\":150.0,\"decl\":65.0}]}'') =
     Inr (JObj [(py_str ''resolvedCoordinate'',
                 JArr [JObj [(py_str ''ra'', JFloat (pf (py_str ''150.0''))),
                             (py_str ''decl'', JFloat (pf (py_str ''65.0'')))]])])"
  by (simp add: json_eval py_str_def)

lemma resolve_stub_KQ_UMa:
  "fst (resolve P (stub_service (py_str ''{\"resolvedCoordinate\":[{\"ra\":150.0,\"decl\":65.0}]}''))
          (py_str ''KQ UMa'') w) =
   Inr (JFloat (parse_float P (py_str ''150.0'')), JFloat (parse_float P (py_str ''65.0'')))"
proof -
  let ?t = "py_str ''{\"resolvedCoordinate\":[{\"ra\":150.0,\"decl\":65.0}]}''"
  let ?first = "JObj [(py_str ''ra'', JFloat (parse_float P (py_str ''150.0''))),
                      (py_str ''decl'', JFloat (parse_float P (py_str ''65.0'')))]"
  have g: "getitem (JObj [(py_str ''resolvedCoordinate'', JArr [?first])])
      (Key (py_str ''resolvedCoordinate'')) = Inr (JArr (?first # []))"
    by simp
  have a: "getitem ?first (Key (py_str ''ra'')) = Inr (JFloat (parse_float P (py_str ''150.0'')))"
    by simp
  have d: "getitem ?first (Key (py_str ''decl'')) = Inr (JFloat (parse_float P (py_str ''65.0'')))"
    by (simp add: py_str_def)
  have r: "mast_response P (stub_service ?t) (py_str ''KQ UMa'') w =
      (Inr ([], ?t), snd (mast_response P (stub_service ?t) (py_str ''KQ UMa'') w))"
    by (rule mast_response_stub)
  have l: "loads (parse_float P) ?t = Inr (JObj [(py_str ''resolvedCoordinate'', JArr [?first])])"
    by (rule loads_stub_KQ_UMa)
  from resolve_decoded [OF r l] try_body_first [OF g] a d
  show ?thesis by (simp add: coordinates_def)
qed

lemma requests_append: "requests (xs @ ys) = requests xs @ requests ys"
  by (induction xs rule: requests.induct) simp_all

lemma header_values:
  "header_value (py_str ''Content-Type'') (headers P) = Some (py_str ''application/x-www-form-urlencoded'')"
  "header_value (py_str ''Accept'') (headers P) = Some (py_str ''text/plain'')"
  "header_value (py_str ''User-Agent'') (headers P) = Some (py_str ''python-requests/'' @ version P)"
  by (simp_all add: header_value_def headers_def py_str_def lower_def)

lemma mastQuery_trace:
  assumes "dumps P (heap w request) = Inr text"
    and "quote text = Inr qs"
  shows "\<exists>later. trace (snd (mastQuery P srv request w)) =
           trace w @ EvConnection (length (connections w)) (py_str ''mast.stsci.edu'') #
             EvRequest (length (connections w)) (post P (py_str ''mast.stsci.edu'') qs) # later \<and>
           requests later = []"
proof (cases "srv (post P (py_str ''mast.stsci.edu'') qs)")
  case (RequestRaises e)
  from mastQuery_RequestRaises [where srv = srv, OF assms this] show ?thesis by simp
next
  case (GetResponseRaises e)
  from mastQuery_GetResponseRaises [where srv = srv, OF assms this] show ?thesis by simp
next
  case (ReadRaises head e)
  from mastQuery_ReadRaises [where srv = srv, OF assms this] show ?thesis by simp
next
  case (Response head content)
  from mastQuery_Response [where srv = srv, OF assms this] show ?thesis by simp
qed

lemma version_literal_floats: "version literal_floats = py_str ''3.11.10''"
  by (simp add: version_def literal_floats_def py_str_def str_of_nat.simps)

lemma resolve_run:
  "resolve P srv name w =
     (outcome P name (srv (post P (py_str ''mast.stsci.edu'')
        (concat (map quote_byte (json_text (float_repr P) (resolverRequest name)))))),
      snd (resolve P srv name w))"
  by (simp add: resolve_def new_object_def mastQuery_def Let_def dumps_resolverRequest quote_resolverRequest
      HTTPSConnection_def outcome_def prod_eq_iff split: exchange.splits sum.splits)

lemma resolve_requests:
  "requests (trace (snd (resolve P srv name w))) =
     requests (trace w) @
     [post P (py_str ''mast.stsci.edu'')
        (concat (map quote_byte (json_text (float_repr P) (resolverRequest name))))]"
  by (simp add: resolve_def new_object_def mastQuery_def Let_def dumps_resolverRequest quote_resolverRequest
      HTTPSConnection_def called_def close_def requests_append split: exchange.splits sum.splits)

lemma resolve_world: "snd (resolve P srv name w) = snd (mast_response P srv name w)"
  by (simp add: resolve_def mast_response_def split: prod.splits sum.splits)

lemma mast_response_heap:
  "heap (snd (mast_response P srv name w)) = (heap w)(next_addr w := resolverRequest name)"
  by (simp add: mast_response_def new_object_def mastQuery_heap)

lemma json_text_KQ_UMa: "json_text fr (resolverRequest (py_str ''KQ UMa'')) = KQ_UMa_json"
  by (simp add: KQ_UMa_json_def resolverRequest_def py_str_def encode_basestring_ascii_def escape_ascii_def)

lemma quote_KQ_UMa: "py_str ''request='' @ concat (map quote_byte KQ_UMa_json) = KQ_UMa_body"
  by (simp add: KQ_UMa_json_def KQ_UMa_body_def py_str_def quote_byte_def always_safe_def hex_upper_def)

lemma bodies_KQ_UMa:
  "map rq_body (requests (trace (snd (resolve P srv (py_str ''KQ UMa'') w)))) =
     map rq_body (requests (trace w)) @ [KQ_UMa_body]"
  by (simp add: resolve_requests post_def json_text_KQ_UMa quote_KQ_UMa)

lemma unquote_KQ_UMa:
  "decode_ascii (unquote_to_bytes (drop (length (py_str ''request='')) KQ_UMa_body)) = Inr KQ_UMa_json"
  by (simp add: KQ_UMa_body_def KQ_UMa_json_def py_str_def decode_ascii_def hex_value_def)

lemma loads_KQ_UMa: "loads pf KQ_UMa_json = Inr (resolverRequest (py_str ''KQ UMa''))"
  by (simp add: KQ_UMa_json_def resolverRequest_def json_eval py_str_def)

lemma resolve_stub_Nonexistent_Object:
  "fst (resolve P (stub_service (py_str ''{\"resolvedCoordinate\":[]}'')) (py_str ''Nonexistent Object'') w) =
   Inl (ValueError (py_str ''Unknown object '' @ [39] @ py_str ''Nonexistent Object'' @ [39]))"
proof -
  let ?t = "py_str ''{\"resolvedCoordinate\":[]}''"
  have r: "mast_response P (stub_service ?t) (py_str ''Nonexistent Object'') w =
      (Inr ([], ?t), snd (mast_response P (stub_service ?t) (py_str ''Nonexistent Object'') w))"
    by (rule mast_response_stub)
  have l: "loads (parse_float P) ?t = Inr (JObj [(py_str ''resolvedCoordinate'', JArr [])])"
    by (simp add: json_eval py_str_def)
  have "coordinates (py_str ''Nonexistent Object'') (JObj [(py_str ''resolvedCoordinate'', JArr [])]) =
      Inl (ValueError (unknown_object (py_str ''Nonexistent Object'')))"
    by (simp add: coordinates_ValueError)
  with resolve_decoded [OF r l] show ?thesis by (simp add: unknown_object_def)
qed

section \<open>Properties of the specification\<close>

subsection \<open>C1: an empty list of coordinates is an unknown object\<close>

text \<open>
  C1. For every name: when the response that \<^verbatim>\<open>mastQuery\<close> returns decodes to a
  JSON value whose \<^verbatim>\<open>resolvedCoordinate\<close> field is the empty array, \<^verbatim>\<open>resolve\<close>
  raises \<^verbatim>\<open>ValueError("Unknown object '<name>'")\<close>: the message carries the requested
  name, character for character, between the quotes. The witness is the stub response
  \<^verbatim>\<open>{"resolvedCoordinate":[]}\<close> with the name \<^verbatim>\<open>Nonexistent Object\<close>;
  \<open>resolve_stub_Nonexistent_Object\<close> above is the same run on any platform.
\<close>

theorem resolve_empty_is_unknown_object:
  assumes "mast_response P srv name w = (Inr (head, resolvedObjectString), w')"
    and "loads (parse_float P) resolvedObjectString = Inr resolvedObject"
    and "getitem resolvedObject (Key (py_str ''resolvedCoordinate'')) = Inr (JArr [])"
  shows "resolve P srv name w = (Inl (ValueError (py_str ''Unknown object '' @ [39] @ name @ [39])), w')"
  using resolve_decoded [OF assms(1,2)] coordinates_empty_array [OF assms(3)]
  by (simp add: unknown_object_def)

theorem resolve_empty_is_unknown_object_witness:
  "fst (resolve literal_floats (stub_service (py_str ''{\"resolvedCoordinate\":[]}''))
          (py_str ''Nonexistent Object'') empty_world) =
   Inl (ValueError (py_str ''Unknown object '' @ [39] @ py_str ''Nonexistent Object'' @ [39]))"
proof -
  let ?S = "stub_service (py_str ''{\"resolvedCoordinate\":[]}'')"
  let ?n = "py_str ''Nonexistent Object''"
  have r: "mast_response literal_floats ?S ?n empty_world =
      (Inr ([], py_str ''{\"resolvedCoordinate\":[]}''), snd (mast_response literal_floats ?S ?n empty_world))"
    by (rule mast_response_stub)
  have l: "loads (parse_float literal_floats) (py_str ''{\"resolvedCoordinate\":[]}'') =
      Inr (JObj [(py_str ''resolvedCoordinate'', JArr [])])"
    by (simp add: json_eval py_str_def)
  have g: "getitem (JObj [(py_str ''resolvedCoordinate'', JArr [])]) (Key (py_str ''resolvedCoordinate'')) =
      Inr (JArr [])"
    by simp
  from resolve_empty_is_unknown_object [OF r l g] show ?thesis by simp
qed

subsection \<open>C2: the coordinate is the first entry's\<close>

text \<open>
  C2. For every name: when the decoded response has a non-empty \<^verbatim>\<open>resolvedCoordinate\<close>
  array whose first element carries \<^verbatim>\<open>ra\<close> and \<^verbatim>\<open>decl\<close>, \<^verbatim>\<open>resolve\<close> returns
  the pair of these two values. The witness is the stub response
  \<^verbatim>\<open>{"resolvedCoordinate":[{"ra":150.0,"decl":65.0}]}\<close> with the name \<^verbatim>\<open>KQ UMa\<close>,
  which yields \<open>(150.0, 65.0)\<close>; \<open>resolve_stub_KQ_UMa\<close> above is the same run on any
  platform. (A first element without one of the fields is the subject of C9.)
\<close>

theorem resolve_returns_first_entry:
  assumes "mast_response P srv name w = (Inr (head, resolvedObjectString), w')"
    and "loads (parse_float P) resolvedObjectString = Inr resolvedObject"
    and "getitem resolvedObject (Key (py_str ''resolvedCoordinate'')) = Inr (JArr (first # rest))"
    and "getitem first (Key (py_str ''ra'')) = Inr ra"
    and "getitem first (Key (py_str ''decl'')) = Inr decl"
  shows "resolve P srv name w = (Inr (ra, decl), w')"
  using resolve_decoded [OF assms(1,2)] try_body_first [OF assms(3)] assms(4,5)
  by (simp add: coordinates_def)

theorem resolve_returns_first_entry_witness:
  "fst (resolve literal_floats
          (stub_service (py_str ''{\"resolvedCoordinate\":[{\"ra\":150.0,\"decl\":65.0}]}''))
          (py_str ''KQ UMa'') empty_world) =
   Inr (JFloat (py_str ''150.0''), JFloat (py_str ''65.0''))"
proof -
  let ?t = "py_str ''{\"resolvedCoordinate\":[{\"ra\":150.0,\"decl\":65.0}]}''"
  let ?first = "JObj [(py_str ''ra'', JFloat (py_str ''150.0'')), (py_str ''decl'', JFloat (py_str ''65.0''))]"
  have r: "mast_response literal_floats (stub_service ?t) (py_str ''KQ UMa'') empty_world =
      (Inr ([], ?t), snd (mast_response literal_floats (stub_service ?t) (py_str ''KQ UMa'') empty_world))"
    by (rule mast_response_stub)
  have l: "loads (parse_float literal_floats) ?t = Inr (JObj [(py_str ''resolvedCoordinate'', JArr [?first])])"
    by (simp add: loads_stub_KQ_UMa literal_floats_def)
  have g: "getitem (JObj [(py_str ''resolvedCoordinate'', JArr [?first])])
      (Key (py_str ''resolvedCoordinate'')) = Inr (JArr (?first # []))"
    by simp
  have a: "getitem ?first (Key (py_str ''ra'')) = Inr (JFloat (py_str ''150.0''))"
    by simp
  have d: "getitem ?first (Key (py_str ''decl'')) = Inr (JFloat (py_str ''65.0''))"
    by (simp add: py_str_def)
  from resolve_returns_first_entry [OF r l g a d] show ?thesis by simp
qed

subsection \<open>C3: no coordinate without an entry\<close>

text \<open>
  C3. For every name, service and world: \<^verbatim>\<open>resolve\<close> returns a coordinate only if
  \<^verbatim>\<open>mastQuery\<close> returned a body, the body decoded, and the decoded value has a
  \<^verbatim>\<open>resolvedCoordinate\<close> array with a first entry; the coordinate is then that entry's
  \<^verbatim>\<open>ra\<close> and \<^verbatim>\<open>decl\<close>. So with the array absent or empty the result is an
  exception, never a coordinate made up from nothing.
\<close>

theorem resolve_coordinate_needs_entry:
  assumes "resolve P srv name w = (Inr (ra, decl), w')"
  shows "\<exists>head resolvedObjectString resolvedObject first rest.
           mast_response P srv name w = (Inr (head, resolvedObjectString), w') \<and>
           loads (parse_float P) resolvedObjectString = Inr resolvedObject \<and>
           getitem resolvedObject (Key (py_str ''resolvedCoordinate'')) = Inr (JArr (first # rest)) \<and>
           getitem first (Key (py_str ''ra'')) = Inr ra \<and>
           getitem first (Key (py_str ''decl'')) = Inr decl"
proof -
  obtain res w2 where m: "mast_response P srv name w = (res, w2)"
    by (cases "mast_response P srv name w")
  show ?thesis
  proof (cases res)
    case (Inl e)
    with m assms resolve_no_response [of P srv name w e w2] show ?thesis by simp
  next
    case (Inr hc)
    obtain head s where hc: "hc = (head, s)" by (cases hc)
    show ?thesis
    proof (cases "loads (parse_float P) s")
      case (Inl e)
      with m Inr hc assms resolve_not_decoded [of P srv name w head s w2 e] show ?thesis by simp
    next
      case obj: (Inr obj)
      from m Inr hc have m': "mast_response P srv name w = (Inr (head, s), w2)" by simp
      from resolve_decoded [OF m' obj] assms
      have c: "coordinates name obj = Inr (ra, decl)" and w: "w2 = w'" by simp_all
      have "try_body obj = Inr (ra, decl)"
      proof (cases "try_body obj")
        case (Inl e)
        with c show ?thesis by (cases e) (simp_all add: coordinates_def)
      next
        case (Inr x)
        with c show ?thesis by (simp add: coordinates_def)
      qed
      from try_body_Inr [OF this] m' obj w show ?thesis by blast
    qed
  qed
qed

theorem resolve_coordinate_needs_entry_witness:
  "\<exists>head resolvedObjectString resolvedObject first rest.
     mast_response literal_floats
       (stub_service (py_str ''{\"resolvedCoordinate\":[{\"ra\":150.0,\"decl\":65.0}]}''))
       (py_str ''KQ UMa'') empty_world =
       (Inr (head, resolvedObjectString),
        snd (resolve literal_floats
               (stub_service (py_str ''{\"resolvedCoordinate\":[{\"ra\":150.0,\"decl\":65.0}]}''))
               (py_str ''KQ UMa'') empty_world)) \<and>
     loads (parse_float literal_floats) resolvedObjectString = Inr resolvedObject \<and>
     getitem resolvedObject (Key (py_str ''resolvedCoordinate'')) = Inr (JArr (first # rest)) \<and>
     getitem first (Key (py_str ''ra'')) = Inr (JFloat (py_str ''150.0'')) \<and>
     getitem first (Key (py_str ''decl'')) = Inr (JFloat (py_str ''65.0''))"
proof -
  let ?S = "stub_service (py_str ''{\"resolvedCoordinate\":[{\"ra\":150.0,\"decl\":65.0}]}'')"
  have "fst (resolve literal_floats ?S (py_str ''KQ UMa'') empty_world) =
      Inr (JFloat (py_str ''150.0''), JFloat (py_str ''65.0''))"
    using resolve_stub_KQ_UMa [of literal_floats empty_world] by (simp add: literal_floats_def)
  then have "resolve literal_floats ?S (py_str ''KQ UMa'') empty_world =
      (Inr (JFloat (py_str ''150.0''), JFloat (py_str ''65.0'')),
       snd (resolve literal_floats ?S (py_str ''KQ UMa'') empty_world))"
    by (simp add: prod_eq_iff)
  from resolve_coordinate_needs_entry [OF this] show ?thesis .
qed

subsection \<open>C4: the request for \<^verbatim>\<open>KQ UMa\<close>\<close>

text \<open>
  C4, as stated, fails: the body that \<^verbatim>\<open>mastQuery\<close> sends for \<^verbatim>\<open>KQ UMa\<close> contains
  neither \<^verbatim>\<open>"input":"KQ UMa"\<close> nor \<^verbatim>\<open>"format":"json"\<close>. \<^verbatim>\<open>json.dumps\<close> writes a
  space after each colon, and \<^verbatim>\<open>quote\<close> then percent-encodes quotes, colons and spaces.
\<close>

theorem request_body_not_verbatim:
  "map rq_body (requests (trace (snd (resolve literal_floats (stub_service []) (py_str ''KQ UMa'') empty_world)))) =
     [KQ_UMa_body] \<and>
   \<not> str_contains (py_str ''\"input\":\"KQ UMa\"'') KQ_UMa_body \<and>
   \<not> str_contains (py_str ''\"format\":\"json\"'') KQ_UMa_body \<and>
   \<not> str_contains (py_str ''\"input\":\"KQ UMa\"'') KQ_UMa_json \<and>
   \<not> str_contains (py_str ''\"format\":\"json\"'') KQ_UMa_json"
proof -
  have "\<not> str_contains (py_str ''\"input\":\"KQ UMa\"'') KQ_UMa_body"
    by (simp add: KQ_UMa_body_def py_str_def)
  moreover have "\<not> str_contains (py_str ''\"format\":\"json\"'') KQ_UMa_body"
    by (simp add: KQ_UMa_body_def py_str_def)
  moreover have "\<not> str_contains (py_str ''\"input\":\"KQ UMa\"'') KQ_UMa_json"
    by (simp add: KQ_UMa_json_def py_str_def)
  moreover have "\<not> str_contains (py_str ''\"format\":\"json\"'') KQ_UMa_json"
    by (simp add: KQ_UMa_json_def py_str_def)
  ultimately show ?thesis
    by (simp add: bodies_KQ_UMa empty_world_def)
qed

text \<open>
  C4, amended. \<^verbatim>\<open>json.dumps\<close> returns the text of the dictionary that
  \<^verbatim>\<open>resolve\<close> builds, and the request that \<^verbatim>\<open>resolve\<close> sends is a function of the
  name and the platform alone, whatever the service and the world. For the name \<^verbatim>\<open>KQ UMa\<close>
  the body is the text \<open>KQ_UMa_body\<close> on every platform: \<^verbatim>\<open>request=\<close> followed by
  the percent-encoded JSON text. It holds the two field assignments percent-encoded, with
  a space after the colon. Undoing the URL-encoding gives the JSON text back, and
  decoding that gives \<^verbatim>\<open>params.input = "KQ UMa"\<close> and \<^verbatim>\<open>params.format = "json"\<close>
  exactly.
\<close>

theorem request_round_trip:
  "dumps P (resolverRequest name) = Inr (json_text (float_repr P) (resolverRequest name)) \<and>
   dumps P (resolverRequest (py_str ''KQ UMa'')) = Inr KQ_UMa_json \<and>
   requests (trace (snd (resolve P srv name w))) =
     requests (trace w) @
     [\<lparr>rq_host = py_str ''mast.stsci.edu'', rq_method = py_str ''POST'',
       rq_url = py_str ''/api/v0/invoke'',
       rq_body = py_str ''request='' @ concat (map quote_byte (json_text (float_repr P) (resolverRequest name))),
       rq_headers = headers P\<rparr>] \<and>
   map rq_body (requests (trace (snd (resolve P srv (py_str ''KQ UMa'') w)))) =
     map rq_body (requests (trace w)) @ [KQ_UMa_body] \<and>
   str_contains (py_str ''%22input%22%3A%20%22KQ%20UMa%22'') KQ_UMa_body \<and>
   str_contains (py_str ''%22format%22%3A%20%22json%22'') KQ_UMa_body \<and>
   decode_ascii (unquote_to_bytes (drop (length (py_str ''request='')) KQ_UMa_body)) = Inr KQ_UMa_json \<and>
   str_contains (py_str ''\"input\": \"KQ UMa\"'') KQ_UMa_json \<and>
   str_contains (py_str ''\"format\": \"json\"'') KQ_UMa_json \<and>
   (\<exists>request params.
      loads (parse_float P) KQ_UMa_json = Inr request \<and>
      getitem request (Key (py_str ''params'')) = Inr params \<and>
      getitem params (Key (py_str ''input'')) = Inr (JStr (py_str ''KQ UMa'')) \<and>
      getitem params (Key (py_str ''format'')) = Inr (JStr (py_str ''json'')))"
proof -
  have "str_contains (py_str ''%22input%22%3A%20%22KQ%20UMa%22'') KQ_UMa_body"
    by (simp add: KQ_UMa_body_def py_str_def)
  moreover have "str_contains (py_str ''%22format%22%3A%20%22json%22'') KQ_UMa_body"
    by (simp add: KQ_UMa_body_def py_str_def)
  moreover have "str_contains (py_str ''\"input\": \"KQ UMa\"'') KQ_UMa_json"
    by (simp add: KQ_UMa_json_def py_str_def)
  moreover have "str_contains (py_str ''\"format\": \"json\"'') KQ_UMa_json"
    by (simp add: KQ_UMa_json_def py_str_def)
  moreover have "\<exists>request params.
      loads (parse_float P) KQ_UMa_json = Inr request \<and>
      getitem request (Key (py_str ''params'')) = Inr params \<and>
      getitem params (Key (py_str ''input'')) = Inr (JStr (py_str ''KQ UMa'')) \<and>
      getitem params (Key (py_str ''format'')) = Inr (JStr (py_str ''json''))"
    unfolding loads_KQ_UMa by (simp add: resolverRequest_def py_str_def)
  moreover have "requests (trace (snd (resolve P srv name w))) =
     requests (trace w) @
     [\<lparr>rq_host = py_str ''mast.stsci.edu'', rq_method = py_str ''POST'',
       rq_url = py_str ''/api/v0/invoke'',
       rq_body = py_str ''request='' @ concat (map quote_byte (json_text (float_repr P) (resolverRequest name))),
       rq_headers = headers P\<rparr>]"
    by (simp add: resolve_requests post_def)
  ultimately show ?thesis
    by (simp add: bodies_KQ_UMa unquote_KQ_UMa dumps_resolverRequest json_text_KQ_UMa)
qed


subsection \<open>C5: the range of the coordinate\<close>

text \<open>
  C5, as stated, fails: \<^verbatim>\<open>resolve\<close> checks no range. A response whose first entry
  has \<^verbatim>\<open>ra = 400\<close> and \<^verbatim>\<open>decl = 100\<close> comes back as the coordinate \<open>(400, 100)\<close>.
\<close>

theorem coordinate_out_of_range:
  "fst (resolve literal_floats
          (stub_service (py_str ''{\"resolvedCoordinate\":[{\"ra\":400,\"decl\":100}]}''))
          (py_str ''KQ UMa'') empty_world) = Inr (JInt 400, JInt 100) \<and>
   \<not> in_range (\<lambda>x. None) (JInt 400, JInt 100 :: str json)"
proof -
  let ?t = "py_str ''{\"resolvedCoordinate\":[{\"ra\":400,\"decl\":100}]}''"
  let ?first = "JObj [(py_str ''ra'', JInt 400), (py_str ''decl'', JInt 100)] :: str json"
  let ?obj = "JObj [(py_str ''resolvedCoordinate'', JArr [?first])]"
  have r: "mast_response literal_floats (stub_service ?t) (py_str ''KQ UMa'') empty_world =
      (Inr ([], ?t), snd (mast_response literal_floats (stub_service ?t) (py_str ''KQ UMa'') empty_world))"
    by (rule mast_response_stub)
  have l: "loads (parse_float literal_floats) ?t = Inr ?obj"
    by (simp add: json_eval py_str_def)
  have g: "getitem ?obj (Key (py_str ''resolvedCoordinate'')) = Inr (JArr (?first # []))"
    by simp
  have "try_body ?obj = Inr (JInt 400, JInt 100)"
    unfolding try_body_first [OF g] by (simp add: py_str_def)
  with resolve_decoded [OF r l]
  have "fst (resolve literal_floats (stub_service ?t) (py_str ''KQ UMa'') empty_world) =
      Inr (JInt 400, JInt 100)"
    by (simp add: coordinates_def)
  then show ?thesis by (simp add: in_range_def number_value_def)
qed

text \<open>
  C5, amended. \<^verbatim>\<open>resolve\<close> returns the pair of the \<^verbatim>\<open>ra\<close> and \<^verbatim>\<open>decl\<close> of the
  first entry, unchanged, so the coordinate lies in \<open>[0, 360) \<times> [-90, 90]\<close> exactly when the values
  the service sent do.
\<close>

theorem resolve_keeps_range:
  assumes "mast_response P srv name w = (Inr (head, resolvedObjectString), w')"
    and "loads (parse_float P) resolvedObjectString = Inr resolvedObject"
    and "getitem resolvedObject (Key (py_str ''resolvedCoordinate'')) = Inr (JArr (first # rest))"
    and "getitem first (Key (py_str ''ra'')) = Inr ra"
    and "getitem first (Key (py_str ''decl'')) = Inr decl"
  shows "resolve P srv name w = (Inr (ra, decl), w') \<and>
         (\<exists>c. fst (resolve P srv name w) = Inr c \<and>
              (in_range float_value c \<longleftrightarrow> in_range float_value (ra, decl)))"
  using resolve_decoded [OF assms(1,2)] try_body_first [OF assms(3)] assms(4,5)
  by (simp add: coordinates_def)

theorem resolve_keeps_range_witness:
  "\<exists>c. fst (resolve literal_floats
               (stub_service (py_str ''{\"resolvedCoordinate\":[{\"ra\":150,\"decl\":65}]}''))
               (py_str ''KQ UMa'') empty_world) = Inr c \<and>
        in_range (\<lambda>x. None) c"
proof -
  let ?t = "py_str ''{\"resolvedCoordinate\":[{\"ra\":150,\"decl\":65}]}''"
  let ?first = "JObj [(py_str ''ra'', JInt 150), (py_str ''decl'', JInt 65)] :: str json"
  let ?obj = "JObj [(py_str ''resolvedCoordinate'', JArr [?first])]"
  have r: "mast_response literal_floats (stub_service ?t) (py_str ''KQ UMa'') empty_world =
      (Inr ([], ?t), snd (mast_response literal_floats (stub_service ?t) (py_str ''KQ UMa'') empty_world))"
    by (rule mast_response_stub)
  have l: "loads (parse_float literal_floats) ?t = Inr ?obj"
    by (simp add: json_eval py_str_def)
  have g: "getitem ?obj (Key (py_str ''resolvedCoordinate'')) = Inr (JArr (?first # []))"
    by simp
  have a: "getitem ?first (Key (py_str ''ra'')) = Inr (JInt 150)"
    by simp
  have d: "getitem ?first (Key (py_str ''decl'')) = Inr (JInt 65)"
    by (simp add: py_str_def)
  have i: "in_range (\<lambda>x. None) (JInt 150, JInt 65 :: str json)"
    by (simp add: in_range_def number_value_def)
  from resolve_keeps_range [OF r l g a d, of "\<lambda>x. None"] i show ?thesis by auto
qed

subsection \<open>C6: one POST per call\<close>

text \<open>
  C6, as stated, fails for some request payloads: \<^verbatim>\<open>json.dumps(request)\<close> runs before
  the connection is made, and when it raises, \<^verbatim>\<open>mastQuery\<close> sends nothing. A request
  that holds the integer \<open>10 ^ 4300\<close>, of 4301 digits, is refused by a platform with the
  default limit of 4300 digits: the call ends in the \<^verbatim>\<open>ValueError\<close> of
  \<^verbatim>\<open>int.__repr__\<close>, with no connection and no request in the trace.
\<close>

theorem mastQuery_no_post_for_long_int:
  "fst (mastQuery literal_floats (stub_service []) 0
          (snd (new_object (JObj [(py_str ''n'', JInt long_int)]) empty_world))) =
     Inl (digits_error 4300) \<and>
   trace (snd (mastQuery literal_floats (stub_service []) 0
                 (snd (new_object (JObj [(py_str ''n'', JInt long_int)]) empty_world)))) = [] \<and>
   connections (snd (mastQuery literal_floats (stub_service []) 0
                       (snd (new_object (JObj [(py_str ''n'', JInt long_int)]) empty_world)))) = []"
proof -
  have "dumps literal_floats (JObj [(py_str ''n'', JInt long_int)]) = Inl (digits_error 4300)"
    by (simp add: dumps_def literal_floats_def dumps_raises_pos long_int_too_long)
  then have "dumps literal_floats
      (heap (snd (new_object (JObj [(py_str ''n'', JInt long_int)]) (empty_world :: str world))) 0) =
      Inl (digits_error 4300)"
    by (simp add: new_object_def empty_world_def)
  from mastQuery_dumps_raises [OF this] show ?thesis
    by (simp add: new_object_def empty_world_def)
qed

text \<open>
  C6, amended. On a platform whose floats print as ASCII text, every call of
  \<^verbatim>\<open>mastQuery\<close> in which \<^verbatim>\<open>json.dumps(request)\<close> returns, for every service, creates
  one \<^verbatim>\<open>HTTPSConnection\<close> to \<^verbatim>\<open>mast.stsci.edu\<close> and puts exactly one request on it:
  a \<^verbatim>\<open>POST\<close> to \<^verbatim>\<open>/api/v0/invoke\<close> whose body is \<^verbatim>\<open>request=\<close> and the
  percent-encoded text, and whose headers give \<^verbatim>\<open>Content-Type\<close> as
  \<^verbatim>\<open>application/x-www-form-urlencoded\<close>, \<^verbatim>\<open>Accept\<close> as \<^verbatim>\<open>text/plain\<close> and
  \<^verbatim>\<open>User-Agent\<close> as \<^verbatim>\<open>python-requests/\<close> followed by the interpreter's version.
  No other request follows in the call. When \<^verbatim>\<open>json.dumps(request)\<close> raises, the
  exception leaves \<^verbatim>\<open>mastQuery\<close> and the world is as it was: nothing was sent.
\<close>

theorem mastQuery_one_post:
  assumes "\<forall>x. ascii (float_repr P x)"
  shows "(\<forall>requestString. dumps P (heap w request) = Inr requestString \<longrightarrow>
            (\<exists>later.
               trace (snd (mastQuery P srv request w)) =
                 trace w @
                 EvConnection (length (connections w)) (py_str ''mast.stsci.edu'') #
                 EvRequest (length (connections w))
                   \<lparr>rq_host = py_str ''mast.stsci.edu'', rq_method = py_str ''POST'',
                    rq_url = py_str ''/api/v0/invoke'',
                    rq_body = py_str ''request='' @ concat (map quote_byte requestString),
                    rq_headers = headers P\<rparr> # later \<and>
               requests later = [])) \<and>
         (\<forall>e. dumps P (heap w request) = Inl e \<longrightarrow> mastQuery P srv request w = (Inl e, w)) \<and>
         header_value (py_str ''Content-Type'') (headers P) = Some (py_str ''application/x-www-form-urlencoded'') \<and>
         header_value (py_str ''Accept'') (headers P) = Some (py_str ''text/plain'') \<and>
         header_value (py_str ''User-Agent'') (headers P) = Some (py_str ''python-requests/'' @ version P)"
proof (intro conjI allI impI)
  fix requestString
  assume d: "dumps P (heap w request) = Inr requestString"
  then have "requestString = json_text (float_repr P) (heap w request)"
    by (auto simp: dumps_def split: option.splits)
  with assms have "ascii requestString" by (simp add: json_text_ascii)
  from mastQuery_trace [OF d quote_ascii [OF this], of srv]
  show "\<exists>later.
          trace (snd (mastQuery P srv request w)) =
            trace w @
            EvConnection (length (connections w)) (py_str ''mast.stsci.edu'') #
            EvRequest (length (connections w))
              \<lparr>rq_host = py_str ''mast.stsci.edu'', rq_method = py_str ''POST'',
               rq_url = py_str ''/api/v0/invoke'',
               rq_body = py_str ''request='' @ concat (map quote_byte requestString),
               rq_headers = headers P\<rparr> # later \<and>
          requests later = []"
    by (simp add: post_def)
next
  fix e
  assume "dumps P (heap w request) = Inl e"
  then show "mastQuery P srv request w = (Inl e, w)" by (rule mastQuery_dumps_raises)
qed (simp_all add: header_values)

theorem mastQuery_one_post_witness:
  "\<exists>later.
     trace (snd (mastQuery literal_floats (stub_service []) 0
                   (snd (new_object (resolverRequest (py_str ''KQ UMa'')) empty_world)))) =
       EvConnection 0 (py_str ''mast.stsci.edu'') #
       EvRequest 0
         \<lparr>rq_host = py_str ''mast.stsci.edu'', rq_method = py_str ''POST'',
          rq_url = py_str ''/api/v0/invoke'', rq_body = KQ_UMa_body,
          rq_headers = headers literal_floats\<rparr> # later \<and>
     requests later = []"
proof -
  let ?w = "snd (new_object (resolverRequest (py_str ''KQ UMa'')) (empty_world :: str world))"
  have a: "\<forall>x. ascii (float_repr literal_floats x)"
    by (simp add: literal_floats_def ascii_def list_all_iff)
  have d: "dumps literal_floats (heap ?w 0) = Inr KQ_UMa_json"
    by (simp add: new_object_def empty_world_def dumps_resolverRequest json_text_KQ_UMa)
  from mastQuery_one_post [OF a, of ?w 0 "stub_service []"] d
  have "\<exists>later.
      trace (snd (mastQuery literal_floats (stub_service []) 0 ?w)) =
        trace ?w @
        EvConnection (length (connections ?w)) (py_str ''mast.stsci.edu'') #
        EvRequest (length (connections ?w))
          \<lparr>rq_host = py_str ''mast.stsci.edu'', rq_method = py_str ''POST'',
           rq_url = py_str ''/api/v0/invoke'',
           rq_body = py_str ''request='' @ concat (map quote_byte KQ_UMa_json),
           rq_headers = headers literal_floats\<rparr> # later \<and>
      requests later = []"
    by blast
  then show ?thesis
    by (simp add: quote_KQ_UMa new_object_def empty_world_def)
qed

subsection \<open>C7: the same name, the same lookup\<close>

text \<open>
  C7. With the service a function of the request: a second call of \<^verbatim>\<open>resolve\<close> with
  the same name, in the world the first call left, returns what the first returned; the
  result is the same from any two worlds \<open>w\<close> and \<open>w'\<close>, so nothing that a call leaves
  behind changes a later call; and the two calls send the same request \<open>rq\<close>.
\<close>

theorem resolve_idempotent:
  "fst (resolve P srv name (snd (resolve P srv name w))) = fst (resolve P srv name w) \<and>
   fst (resolve P srv name w') = fst (resolve P srv name w) \<and>
   (\<exists>rq. requests (trace (snd (resolve P srv name w))) = requests (trace w) @ [rq] \<and>
         requests (trace (snd (resolve P srv name (snd (resolve P srv name w))))) =
           requests (trace w) @ [rq, rq])"
proof -
  have "fst (resolve P srv name v) =
      outcome P name (srv (post P (py_str ''mast.stsci.edu'')
        (concat (map quote_byte (json_text (float_repr P) (resolverRequest name))))))" for v :: "'a world"
    using resolve_run [of P srv name v] by (metis fst_conv)
  then show ?thesis by (simp add: resolve_requests)
qed

subsection \<open>C8: the life of the connection\<close>






subsection \<open>C9: which failures become "Unknown object"\<close>

text \<open>
  C9, as stated, fails in its last part: a malformed response can be reported as an
  unknown object. With \<^verbatim>\<open>resolvedCoordinate\<close> the empty string, \<^verbatim>\<open>""[0]\<close> raises
  \<^verbatim>\<open>IndexError\<close> as \<^verbatim>\<open>[][0]\<close> does, and the handler turns it into the
  \<^verbatim>\<open>ValueError\<close>.
\<close>

theorem empty_string_reported_unknown:
  "fst (resolve literal_floats (stub_service (py_str ''{\"resolvedCoordinate\":\"\"}''))
          (py_str ''KQ UMa'') empty_world) =
   Inl (ValueError (py_str ''Unknown object '' @ [39] @ py_str ''KQ UMa'' @ [39]))"
proof -
  let ?t = "py_str ''{\"resolvedCoordinate\":\"\"}''"
  have r: "mast_response literal_floats (stub_service ?t) (py_str ''KQ UMa'') empty_world =
      (Inr ([], ?t), snd (mast_response literal_floats (stub_service ?t) (py_str ''KQ UMa'') empty_world))"
    by (rule mast_response_stub)
  have l: "loads (parse_float literal_floats) ?t = Inr (JObj [(py_str ''resolvedCoordinate'', JStr [])])"
    by (simp add: json_eval py_str_def)
  have "coordinates (py_str ''KQ UMa'') (JObj [(py_str ''resolvedCoordinate'', JStr [])]) =
      Inl (ValueError (unknown_object (py_str ''KQ UMa'')))"
    by (simp add: coordinates_ValueError)
  with resolve_decoded [OF r l] show ?thesis by (simp add: unknown_object_def)
qed

text \<open>
  C9, amended. For every decoded response: \<^verbatim>\<open>resolve\<close> raises the "Unknown object"
  \<^verbatim>\<open>ValueError\<close> exactly when \<^verbatim>\<open>resolvedCoordinate\<close> is the empty array or the
  empty string; and when the array is non-empty but its first element gives no \<^verbatim>\<open>ra\<close>
  or no \<^verbatim>\<open>decl\<close>, or the response gives no \<^verbatim>\<open>resolvedCoordinate\<close> at all,
  \<^verbatim>\<open>resolve\<close> propagates a \<^verbatim>\<open>KeyError\<close> or a \<^verbatim>\<open>TypeError\<close> instead.
\<close>

theorem resolve_malformed_error:
  assumes "mast_response P srv name w = (Inr (head, resolvedObjectString), w')"
    and "loads (parse_float P) resolvedObjectString = Inr resolvedObject"
  shows "((\<exists>m. resolve P srv name w = (Inl (ValueError m), w')) \<longleftrightarrow>
            getitem resolvedObject (Key (py_str ''resolvedCoordinate'')) = Inr (JArr []) \<or>
            getitem resolvedObject (Key (py_str ''resolvedCoordinate'')) = Inr (JStr [])) \<and>
         ((\<exists>first rest e.
             getitem resolvedObject (Key (py_str ''resolvedCoordinate'')) = Inr (JArr (first # rest)) \<and>
             (getitem first (Key (py_str ''ra'')) = Inl e \<or> getitem first (Key (py_str ''decl'')) = Inl e)) \<or>
          (\<exists>e. getitem resolvedObject (Key (py_str ''resolvedCoordinate'')) = Inl e) \<longrightarrow>
          (\<exists>e. resolve P srv name w = (Inl e, w') \<and> (e = TypeError \<or> (\<exists>k. e = KeyError (Key k)))))"
proof (intro conjI impI)
  show "(\<exists>m. resolve P srv name w = (Inl (ValueError m), w')) \<longleftrightarrow>
      getitem resolvedObject (Key (py_str ''resolvedCoordinate'')) = Inr (JArr []) \<or>
      getitem resolvedObject (Key (py_str ''resolvedCoordinate'')) = Inr (JStr [])"
    using resolve_decoded [OF assms] coordinates_ValueError [of name resolvedObject] by auto
next
  assume "(\<exists>first rest e.
             getitem resolvedObject (Key (py_str ''resolvedCoordinate'')) = Inr (JArr (first # rest)) \<and>
             (getitem first (Key (py_str ''ra'')) = Inl e \<or> getitem first (Key (py_str ''decl'')) = Inl e)) \<or>
          (\<exists>e. getitem resolvedObject (Key (py_str ''resolvedCoordinate'')) = Inl e)"
  then consider (entry) first rest e where
      "getitem resolvedObject (Key (py_str ''resolvedCoordinate'')) = Inr (JArr (first # rest))"
      "getitem first (Key (py_str ''ra'')) = Inl e \<or> getitem first (Key (py_str ''decl'')) = Inl e"
    | (nokey) e where "getitem resolvedObject (Key (py_str ''resolvedCoordinate'')) = Inl e"
    by blast
  then have "\<exists>e. try_body resolvedObject = Inl e \<and> (e = TypeError \<or> (\<exists>k. e = KeyError (Key k)))"
  proof cases
    case entry
    from entry(2) show ?thesis
      unfolding try_body_first [OF entry(1)]
      by (auto split: sum.splits dest: getitem_Key_error)
  next
    case nokey
    with getitem_Key_error [OF nokey] show ?thesis
      by (auto simp: try_body_def getitem3_def)
  qed
  then obtain e where "try_body resolvedObject = Inl e" "e = TypeError \<or> (\<exists>k. e = KeyError (Key k))"
    by blast
  then have "coordinates name resolvedObject = Inl e" by (auto simp: coordinates_def)
  with resolve_decoded [OF assms] \<open>e = TypeError \<or> (\<exists>k. e = KeyError (Key k))\<close>
  show "\<exists>e. resolve P srv name w = (Inl e, w') \<and> (e = TypeError \<or> (\<exists>k. e = KeyError (Key k)))"
    by auto
qed

theorem resolve_malformed_error_witness:
  "fst (resolve literal_floats (stub_service (py_str ''{\"resolvedCoordinate\":[{\"ra\":150.0}]}''))
          (py_str ''KQ UMa'') empty_world) = Inl (KeyError (Key (py_str ''decl'')))"
proof -
  let ?t = "py_str ''{\"resolvedCoordinate\":[{\"ra\":150.0}]}''"
  let ?first = "JObj [(py_str ''ra'', JFloat (py_str ''150.0''))]"
  let ?obj = "JObj [(py_str ''resolvedCoordinate'', JArr [?first])]"
  have r: "mast_response literal_floats (stub_service ?t) (py_str ''KQ UMa'') empty_world =
      (Inr ([], ?t), snd (mast_response literal_floats (stub_service ?t) (py_str ''KQ UMa'') empty_world))"
    by (rule mast_response_stub)
  have l: "loads (parse_float literal_floats) ?t = Inr ?obj"
    by (simp add: json_eval py_str_def literal_floats_def)
  have g: "getitem ?obj (Key (py_str ''resolvedCoordinate'')) = Inr (JArr (?first # []))"
    by simp
  have d: "getitem ?first (Key (py_str ''decl'')) = Inl (KeyError (Key (py_str ''decl'')))"
    by (simp add: py_str_def)
  from resolve_malformed_error [OF r l] g d
  have "\<exists>e. resolve literal_floats (stub_service ?t) (py_str ''KQ UMa'') empty_world =
      (Inl e, snd (mast_response literal_floats (stub_service ?t) (py_str ''KQ UMa'') empty_world)) \<and>
      (e = TypeError \<or> (\<exists>k. e = KeyError (Key k)))"
    by blast
  moreover have "coordinates (py_str ''KQ UMa'') ?obj = Inl (KeyError (Key (py_str ''decl'')))"
    using try_body_first [OF g] d by (simp add: coordinates_def)
  ultimately show ?thesis using resolve_decoded [OF r l] by simp
qed

subsection \<open>C10: the request dictionary and the name\<close>

text \<open>
  C10. \<^verbatim>\<open>mastQuery\<close> leaves the store as it found it: the request dictionary, like
  every other object, has the same contents after the call. After \<^verbatim>\<open>resolve\<close> the
  dictionary it built is still \<open>resolverRequest name\<close>, whose \<^verbatim>\<open>params.input\<close> is
  the caller's name itself; \<^verbatim>\<open>json.dumps\<close> returns its text on every platform, and the
  one request sent carries that text, percent-encoded.
\<close>

theorem mastQuery_keeps_request:
  "heap (snd (mastQuery P srv request w)) = heap w \<and>
   heap (snd (resolve P srv name w)) (next_addr w) = resolverRequest name \<and>
   (case getitem (resolverRequest name :: 'f json) (Key (py_str ''params'')) of
      Inl e \<Rightarrow> Inl e
    | Inr params \<Rightarrow> getitem params (Key (py_str ''input''))) = Inr (JStr name) \<and>
   dumps P (resolverRequest name) = Inr (json_text (float_repr P) (resolverRequest name)) \<and>
   requests (trace (snd (resolve P srv name w))) =
     requests (trace w) @
     [post P (py_str ''mast.stsci.edu'')
        (concat (map quote_byte (json_text (float_repr P) (resolverRequest name))))]"
proof -
  have "(case getitem (resolverRequest name :: 'f json) (Key (py_str ''params'')) of
      Inl e \<Rightarrow> Inl e
    | Inr params \<Rightarrow> getitem params (Key (py_str ''input''))) = Inr (JStr name)"
    by (simp add: resolverRequest_def py_str_def)
  moreover have "heap (snd (resolve P srv name w)) (next_addr w) = resolverRequest name"
    by (simp add: resolve_world mast_response_heap)
  ultimately show ?thesis
    by (simp add: mastQuery_heap resolve_requests dumps_resolverRequest)
qed

end
